theory Spec2Isabelle
  imports Complex_Main
begin

section \<open>Mainport.py: the Tk canvas \<open>InfiniteGrid\<close>\<close>

text \<open>
  The attributes assigned by \<open>InfiniteGrid.__init__\<close> of Mainport.py. Python floats are
  modelled as \<open>real\<close>, Python ints as \<open>int\<close>; \<open>last_mouse_pos\<close> is \<open>None\<close> or a pair
  \<open>(event.x, event.y)\<close>. The canvas items painted by \<open>draw_grid\<close> and the cursor set by
  \<open>config\<close> are rendering only and are not part of the state.
\<close>

record InfiniteGrid =
  scale_factor :: real
  max_scale_factor :: real
  min_scale_factor :: real
  grid_size :: int
  pan_offset_x :: int
  pan_offset_y :: int
  pan_limit_x :: int
  pan_limit_y :: int
  last_mouse_pos :: "(int \<times> int) option"

definition InfiniteGrid_init :: InfiniteGrid where
  "InfiniteGrid_init =
     \<lparr> scale_factor = 1.0,
       max_scale_factor = 0.85,
       min_scale_factor = 0.25,
       grid_size = 50,
       pan_offset_x = 0,
       pan_offset_y = 0,
       pan_limit_x = 5000,
       pan_limit_y = 5000,
       last_mouse_pos = None \<rparr>"

text \<open>\<open>wheel_event(self, event)\<close>; the argument is \<open>event.delta\<close>.\<close>

definition wheel_event :: "InfiniteGrid \<Rightarrow> int \<Rightarrow> InfiniteGrid" where
  "wheel_event g delta =
     (let zoom_in_factor = 1.25;
          zoom_out_factor = 0.8;
          zoom_factor = (if delta > 0 then zoom_in_factor else zoom_out_factor);
          new_scale_factor = scale_factor g * zoom_factor
      in if min_scale_factor g \<le> new_scale_factor \<and> new_scale_factor \<le> max_scale_factor g
         then g\<lparr>scale_factor := new_scale_factor\<rparr>
         else g)"

text \<open>\<open>mouse_press\<close>, \<open>mouse_move\<close> and \<open>mouse_release\<close>; the arguments are \<open>event.x\<close> and
  \<open>event.y\<close>. A non-empty tuple is truthy, so \<open>if self.last_mouse_pos\<close> tests for \<open>None\<close>.\<close>

definition mouse_press :: "InfiniteGrid \<Rightarrow> int \<Rightarrow> int \<Rightarrow> InfiniteGrid" where
  "mouse_press g x y = g\<lparr>last_mouse_pos := Some (x, y)\<rparr>"

definition mouse_move :: "InfiniteGrid \<Rightarrow> int \<Rightarrow> int \<Rightarrow> InfiniteGrid" where
  "mouse_move g x y =
     (case last_mouse_pos g of
        None \<Rightarrow> g
      | Some (lx, ly) \<Rightarrow>
          (let dx = x - lx;
               dy = y - ly
           in g\<lparr>pan_offset_x := max (min (pan_offset_x g + dx) (pan_limit_x g)) (- pan_limit_x g),
                 pan_offset_y := max (min (pan_offset_y g + dy) (pan_limit_y g)) (- pan_limit_y g),
                 last_mouse_pos := Some (x, y)\<rparr>))"

definition mouse_release :: "InfiniteGrid \<Rightarrow> InfiniteGrid" where
  "mouse_release g = g\<lparr>last_mouse_pos := None\<rparr>"

text \<open>The four bindings of the constructor, as the events Tk can deliver to the canvas.\<close>

datatype tk_event =
    ButtonPress_1 int int
  | B1_Motion int int
  | ButtonRelease_1
  | MouseWheel int

fun dispatch :: "InfiniteGrid \<Rightarrow> tk_event \<Rightarrow> InfiniteGrid" where
  "dispatch g (ButtonPress_1 x y) = mouse_press g x y"
| "dispatch g (B1_Motion x y) = mouse_move g x y"
| "dispatch g ButtonRelease_1 = mouse_release g"
| "dispatch g (MouseWheel delta) = wheel_event g delta"

definition run_events :: "InfiniteGrid \<Rightarrow> tk_event list \<Rightarrow> InfiniteGrid" where
  "run_events g evs = foldl dispatch g evs"

section \<open>Mainport.py: strings, dictionaries and the archive\<close>

text \<open>
  A Python \<open>str\<close> is modelled as the \<open>string\<close> of its UTF-8 bytes, so that \<open>length\<close>
  is the number of bytes it takes in a file. \<open>str_nat\<close> is the decimal text an f-string
  gives for a non-negative int.
\<close>

function str_nat :: "nat \<Rightarrow> string" where
  "str_nat n =
     (if n < 10 then [''0123456789'' ! n]
      else str_nat (n div 10) @ [''0123456789'' ! (n mod 10)])"
  by pat_completeness auto
termination
  by (relation "measure (\<lambda>n. n)") auto

text \<open>
  \<open>s.replace(old, new)\<close> for a non-empty \<open>old\<close>: every non-overlapping occurrence, found
  from the left, is replaced. (The source only calls it with \<open>old = ".vs"\<close>; for an empty
  \<open>old\<close> this function returns \<open>s\<close>, which is not Python's result.)
\<close>

function str_replace :: "string \<Rightarrow> string \<Rightarrow> string \<Rightarrow> string" where
  "str_replace old new s =
     (if s = [] then []
      else if old \<noteq> [] \<and> take (length old) s = old
           then new @ str_replace old new (drop (length old) s)
           else hd s # str_replace old new (tl s))"
  by pat_completeness auto
termination
  by (relation "measure (\<lambda>(old, new, s). length s)") auto

text \<open>
  A Python \<open>dict\<close> keeps its keys in insertion order: it is an association list with
  distinct keys. \<open>d[k] = v\<close> replaces the value of an existing key in place and appends a
  new key at the end.
\<close>

fun dict_set :: "('k \<times> 'v) list \<Rightarrow> 'k \<Rightarrow> 'v \<Rightarrow> ('k \<times> 'v) list" where
  "dict_set [] k v = [(k, v)]"
| "dict_set ((k', v') # d) k v =
     (if k' = k then (k, v) # d else (k', v') # dict_set d k v)"

text \<open>
  Exceptions carry the text that \<open>str(e)\<close> gives (an \<open>AttributeError\<close>, the name of the
  attribute that is missing). The message boxes shown and the lines printed are recorded
  in the order they happen.
\<close>

datatype exn =
    OSError string
  | BadZipFile string
  | UnicodeDecodeError string
  | KeyError string
  | AttributeError string
  | IndexError string
  | struct_error string

fun str_exn :: "exn \<Rightarrow> string" where
  "str_exn (OSError m) = m"
| "str_exn (BadZipFile m) = m"
| "str_exn (UnicodeDecodeError m) = m"
| "str_exn (KeyError m) = m"
| "str_exn (AttributeError m) = m"
| "str_exn (IndexError m) = m"
| "str_exn (struct_error m) = m"

datatype messagebox =
    showinfo string string
  | showerror string string

text \<open>
  The ZIP archive behind a \<open>.vsm1\<close> file is the list of its entries in the order they
  were written, each a file name with its data. The bytes of an entry are either the UTF-8
  encoding of a \<open>str\<close> (\<open>Text s\<close>: \<open>read(name).decode('utf-8')\<close> returns \<open>s\<close>, and
  \<open>writestr(name, s)\<close> stores it) or such that \<open>read(name).decode('utf-8')\<close> raises
  (\<open>Raises e\<close>: bytes that are not UTF-8, a bad checksum). \<open>namelist()\<close> is the list of the
  names; \<open>read(name)\<close> takes the last entry of that name, as \<open>zipfile\<close> does.
\<close>

datatype entry_data =
    Text string
  | Raises exn

type_synonym archive = "(string \<times> entry_data) list"

definition namelist :: "archive \<Rightarrow> string list" where
  "namelist a = map fst a"

definition read_decode :: "archive \<Rightarrow> string \<Rightarrow> exn + string" where
  "read_decode a file_name =
     (case map_of (rev a) file_name of
        None \<Rightarrow> Inl (KeyError file_name)
      | Some (Text s) \<Rightarrow> Inr s
      | Some (Raises e) \<Rightarrow> Inl e)"

text \<open>
  \<open>writestr(name, data)\<close> on an archive open for writing, as \<open>zipfile\<close> does it (where the
  path separator is \<open>/\<close>): the entry name is cut at the first NUL character; an empty name
  raises \<open>IndexError\<close>; a name of more than 65535 bytes does not fit the entry header and
  raises \<open>struct.error\<close>; otherwise the entry is appended. A call that raises adds nothing.
  The texts of the two exceptions are those of Python 3.11.
\<close>

definition zip_filename :: "string \<Rightarrow> string" where
  "zip_filename name = takeWhile (\<lambda>c. c \<noteq> CHR 0x00) name"

definition writestr :: "archive \<Rightarrow> string \<Rightarrow> string \<Rightarrow> exn + archive" where
  "writestr a name data =
     (let filename = zip_filename name
      in if filename = [] then Inl (IndexError ''string index out of range'')
         else if 65535 < length filename
              then Inl (struct_error ''ushort format requires 0 <= number <= 65535'')
              else Inr (a @ [(filename, Text data)]))"

text \<open>What \<open>zipfile.ZipFile(file_path, 'r')\<close> finds at the chosen path.\<close>

datatype zip_file =
    Opened archive
  | OpenRaises exn

section \<open>Mainport.py: \<open>MainWindow\<close>\<close>

text \<open>
  \<open>self.notebook\<close> is the list of the pages added to the \<open>ttk.Notebook\<close>, each with the
  title given as \<open>text=name\<close> and the canvas created in its frame. A widget is referred to
  by the position of its page in that list (pages are never removed), so the value that
  \<open>self.tabs[name]\<close> holds (the grid and the two panels of one frame) is the index of that
  page. \<open>menubar\<close> is the menu built by \<open>create_menu\<close>: the cascades with their labelled
  commands. \<open>stdout\<close> collects the lines printed, \<open>dialogs\<close> the message boxes shown.
\<close>

record page =
  page_text :: string
  page_grid :: InfiniteGrid

datatype command =
    new_script_command
  | save_as_command
  | load_file_command
  | generate_code_command string

record MainWindow =
  notebook :: "page list"
  tabs :: "(string \<times> nat) list"
  menubar :: "(string \<times> (string \<times> command) list) list"
  stdout :: "string list"
  dialogs :: "messagebox list"

definition add_tab :: "MainWindow \<Rightarrow> string \<Rightarrow> MainWindow" where
  "add_tab w name =
     w\<lparr>notebook := notebook w @ [\<lparr>page_text = name, page_grid = InfiniteGrid_init\<rparr>],
       tabs := dict_set (tabs w) name (length (notebook w))\<rparr>"

definition create_menu :: "MainWindow \<Rightarrow> MainWindow" where
  "create_menu w =
     w\<lparr>menubar :=
         [(''File'',
             [(''New Script'', new_script_command),
              (''Save As...'', save_as_command),
              (''Load'', load_file_command)]),
          (''Generate Code'',
             [(''GDScript'', generate_code_command ''GDScript''),
              (''Python'', generate_code_command ''Python'')])]\<rparr>"

definition MainWindow_init :: MainWindow where
  "MainWindow_init =
     create_menu
       (add_tab \<lparr>notebook = [], tabs = [], menubar = [], stdout = [], dialogs = []\<rparr>
          ''Script 1'')"

text \<open>\<open>generate_code\<close> returns \<open>None\<close>: the first component of the result.\<close>

definition generate_code :: "MainWindow \<Rightarrow> string \<Rightarrow> string option \<times> MainWindow" where
  "generate_code w language =
     (None, w\<lparr>stdout := stdout w @ [''Generated '' @ language @ '' code.'']\<rparr>)"

text \<open>
  \<open>save_to_vsm1\<close>. \<open>write_tabs\<close> is the loop over \<open>self.tabs.items()\<close>, started on the
  empty archive; an exception leaves it with the entries written so far, and these are
  what the file holds when the \<open>with\<close> block closes it. Whether the file at \<open>file_path\<close>
  can be created is decided outside the program: the second argument of \<open>save_to_vsm1\<close>
  is \<open>None\<close> when it can, and the exception that \<open>zipfile.ZipFile(file_path, 'w')\<close> raises
  when it cannot, in which case there is no archive. The result is the window with its new
  message box, and the archive that the file holds, if any.
\<close>

fun write_tabs :: "(string \<times> 'a) list \<Rightarrow> archive \<Rightarrow> exn \<times> archive + archive" where
  "write_tabs [] a = Inr a"
| "write_tabs ((tab_name, tab_data) # rest) a =
     (case writestr a (tab_name @ ''.vs'') (''Generated code for '' @ tab_name @ ''.'') of
        Inl e \<Rightarrow> Inl (e, a)
      | Inr a' \<Rightarrow> write_tabs rest a')"

definition save_to_vsm1 :: "MainWindow \<Rightarrow> exn option \<Rightarrow> MainWindow \<times> archive option" where
  "save_to_vsm1 w fault =
     (case fault of
        Some e \<Rightarrow>
          (w\<lparr>dialogs := dialogs w @ [showerror ''Error'' (''Error saving file: '' @ str_exn e)]\<rparr>,
           None)
      | None \<Rightarrow>
          (case write_tabs (tabs w) [] of
             Inl (e, a) \<Rightarrow>
               (w\<lparr>dialogs := dialogs w @ [showerror ''Error'' (''Error saving file: '' @ str_exn e)]\<rparr>,
                Some a)
           | Inr a \<Rightarrow>
               (w\<lparr>dialogs := dialogs w @ [showinfo ''Save'' ''File saved successfully.'']\<rparr>,
                Some a)))"

text \<open>
  \<open>load_from_vsm1\<close>. \<open>load_entries\<close> is the loop over \<open>namelist()\<close> and \<open>load_entry\<close>
  its body; an exception leaves the loop with the window as changed so far, which is what
  the \<open>except\<close> clause finds.
\<close>

definition load_entry :: "MainWindow \<Rightarrow> archive \<Rightarrow> string \<Rightarrow> exn \<times> MainWindow + MainWindow" where
  "load_entry w a file_name =
     (case read_decode a file_name of
        Inl e \<Rightarrow> Inl (e, w)
      | Inr script_data \<Rightarrow>
          (let w1 = add_tab w (str_replace ''.vs'' [] file_name)
           in Inr (w1\<lparr>stdout := stdout w1 @ [''Loaded '' @ file_name @ '': '' @ script_data]\<rparr>)))"

fun load_entries :: "MainWindow \<Rightarrow> archive \<Rightarrow> string list \<Rightarrow> exn \<times> MainWindow + MainWindow" where
  "load_entries w a [] = Inr w"
| "load_entries w a (file_name # rest) =
     (case load_entry w a file_name of
        Inl raised \<Rightarrow> Inl raised
      | Inr w' \<Rightarrow> load_entries w' a rest)"

definition load_from_vsm1 :: "MainWindow \<Rightarrow> zip_file \<Rightarrow> MainWindow" where
  "load_from_vsm1 w file =
     (case file of
        OpenRaises e \<Rightarrow>
          w\<lparr>dialogs := dialogs w @ [showerror ''Error'' (''Error loading file: '' @ str_exn e)]\<rparr>
      | Opened a \<Rightarrow>
          (case load_entries w a (namelist a) of
             Inl (e, w') \<Rightarrow>
               w'\<lparr>dialogs := dialogs w' @ [showerror ''Error'' (''Error loading file: '' @ str_exn e)]\<rparr>
           | Inr w' \<Rightarrow>
               w'\<lparr>dialogs := dialogs w' @ [showinfo ''Load'' ''File loaded successfully.'']\<rparr>))"

definition new_script :: "MainWindow \<Rightarrow> MainWindow" where
  "new_script w = add_tab w (''Script '' @ str_nat (length (tabs w) + 1))"

text \<open>
  An event delivered to the canvas of page \<open>i\<close>; \<open>project_of\<close> reads the workspace as the
  mapping it stands for: each tab name with the state of the canvas it refers to (an index
  stored by \<open>add_tab\<close> is always that of a page of the notebook).
\<close>

definition grid_event :: "MainWindow \<Rightarrow> nat \<Rightarrow> tk_event \<Rightarrow> MainWindow" where
  "grid_event w i ev =
     (if i < length (notebook w)
      then w\<lparr>notebook :=
               (notebook w)[i := (notebook w ! i)\<lparr>page_grid := dispatch (page_grid (notebook w ! i)) ev\<rparr>]\<rparr>
      else w)"

definition project_of :: "MainWindow \<Rightarrow> (string \<times> InfiniteGrid) list" where
  "project_of w = map (\<lambda>(name, i). (name, page_grid (notebook w ! i))) (tabs w)"

section \<open>Main.py: the Qt view \<open>InfiniteGrid\<close>\<close>

text \<open>
  The attributes of Main.py's \<open>InfiniteGrid\<close>. Its constructor does not assign
  \<open>last_mouse_pos\<close>: \<open>None\<close> here means that the object has no such attribute yet, and
  \<open>Some p\<close> that it holds the \<open>QPoint\<close> \<open>p\<close>. The view's transformation and its scroll
  bars belong to Qt: what the handlers ask of Qt is recorded in \<open>qt_calls\<close>, and what Qt
  answers (\<open>mapToScene\<close>, the scroll bars' \<open>value()\<close>) comes with the event.
\<close>

datatype qt_call =
    scale real real
  | horizontalScrollBar_setValue real
  | verticalScrollBar_setValue real

record QtInfiniteGrid =
  qt_scale_factor :: real
  qt_max_scale_factor :: real
  qt_min_scale_factor :: real
  qt_pan_limit_x :: int
  qt_pan_limit_y :: int
  qt_last_mouse_pos :: "(int \<times> int) option"
  qt_calls :: "qt_call list"

definition QtInfiniteGrid_init :: QtInfiniteGrid where
  "QtInfiniteGrid_init =
     \<lparr> qt_scale_factor = 1.0,
       qt_max_scale_factor = 0.85,
       qt_min_scale_factor = 0.25,
       qt_pan_limit_x = 5000,
       qt_pan_limit_y = 5000,
       qt_last_mouse_pos = None,
       qt_calls = [] \<rparr>"

record qt_answers =
  mapToScene :: "int \<times> int \<Rightarrow> real \<times> real"
  horizontalScrollBar_value :: int
  verticalScrollBar_value :: int

text \<open>\<open>wheelEvent\<close>; the argument is \<open>event.angleDelta().y()\<close>.\<close>

definition wheelEvent :: "QtInfiniteGrid \<Rightarrow> int \<Rightarrow> QtInfiniteGrid" where
  "wheelEvent g angle_delta_y =
     (let zoom_in_factor = 1.25;
          zoom_out_factor = 0.8;
          zoom_factor = (if angle_delta_y > 0 then zoom_in_factor else zoom_out_factor);
          new_scale_factor = qt_scale_factor g * zoom_factor
      in if qt_min_scale_factor g \<le> new_scale_factor \<and> new_scale_factor \<le> qt_max_scale_factor g
         then g\<lparr>qt_scale_factor := new_scale_factor,
                qt_calls := qt_calls g @ [scale zoom_factor zoom_factor]\<rparr>
         else g)"

text \<open>
  \<open>mousePressEvent\<close>; \<open>left\<close> is \<open>event.button() == Qt.LeftButton\<close> and \<open>pos\<close> is
  \<open>event.position().toPoint()\<close>.
\<close>

definition mousePressEvent :: "QtInfiniteGrid \<Rightarrow> bool \<Rightarrow> int \<times> int \<Rightarrow> QtInfiniteGrid" where
  "mousePressEvent g left pos = (if left then g\<lparr>qt_last_mouse_pos := Some pos\<rparr> else g)"

text \<open>
  \<open>mouseMoveEvent\<close>; \<open>left_held\<close> is \<open>event.buttons() & Qt.LeftButton\<close>. Python's \<open>and\<close>
  reads \<open>self.last_mouse_pos\<close> only when its left operand is true; reading an attribute
  that was never assigned raises \<open>AttributeError\<close>, which leaves the handler before it
  changes anything. PySide6 takes the truth value of a \<open>QPoint\<close> from \<open>isNull()\<close>.
\<close>

definition QPoint_bool :: "int \<times> int \<Rightarrow> bool" where
  "QPoint_bool p = (\<not> (fst p = 0 \<and> snd p = 0))"

definition mouseMoveEvent ::
  "QtInfiniteGrid \<Rightarrow> bool \<Rightarrow> int \<times> int \<Rightarrow> qt_answers \<Rightarrow> exn + QtInfiniteGrid" where
  "mouseMoveEvent g left_held pos qt =
     (if \<not> left_held then Inr g
      else case qt_last_mouse_pos g of
        None \<Rightarrow> Inl (AttributeError ''last_mouse_pos'')
      | Some last_pos \<Rightarrow>
          if \<not> QPoint_bool last_pos then Inr g
          else
            (let delta_x = fst (mapToScene qt pos) - fst (mapToScene qt last_pos);
                 delta_y = snd (mapToScene qt pos) - snd (mapToScene qt last_pos);
                 new_x = max (min (real_of_int (horizontalScrollBar_value qt) - delta_x)
                                  (real_of_int (qt_pan_limit_x g)))
                             (- real_of_int (qt_pan_limit_x g));
                 new_y = max (min (real_of_int (verticalScrollBar_value qt) - delta_y)
                                  (real_of_int (qt_pan_limit_y g)))
                             (- real_of_int (qt_pan_limit_y g))
             in Inr (g\<lparr>qt_calls := qt_calls g @
                           [horizontalScrollBar_setValue new_x, verticalScrollBar_setValue new_y],
                        qt_last_mouse_pos := Some pos\<rparr>)))"

text \<open>\<open>mouseReleaseEvent\<close> only restores the cursor.\<close>

definition mouseReleaseEvent :: "QtInfiniteGrid \<Rightarrow> bool \<Rightarrow> QtInfiniteGrid" where
  "mouseReleaseEvent g left = g"

text \<open>
  The events Qt delivers to the view. An exception raised by a handler is reported and the
  event loop goes on with the next event, the view being as the handler left it.
\<close>

datatype qt_event =
    MousePress bool "int \<times> int"
  | MouseMove bool "int \<times> int" qt_answers
  | MouseRelease bool
  | Wheel int

fun qt_dispatch :: "QtInfiniteGrid \<Rightarrow> qt_event \<Rightarrow> QtInfiniteGrid" where
  "qt_dispatch g (MousePress left pos) = mousePressEvent g left pos"
| "qt_dispatch g (MouseMove left_held pos qt) =
     (case mouseMoveEvent g left_held pos qt of Inl e \<Rightarrow> g | Inr g' \<Rightarrow> g')"
| "qt_dispatch g (MouseRelease left) = mouseReleaseEvent g left"
| "qt_dispatch g (Wheel angle_delta_y) = wheelEvent g angle_delta_y"

definition qt_run_events :: "QtInfiniteGrid \<Rightarrow> qt_event list \<Rightarrow> QtInfiniteGrid" where
  "qt_run_events g evs = foldl qt_dispatch g evs"

section \<open>Notions used to state the properties\<close>

text \<open>The lines a step has printed: what \<open>stdout\<close> has gained from \<open>before\<close> to \<open>after\<close>.\<close>

definition printed :: "MainWindow \<Rightarrow> MainWindow \<Rightarrow> string list" where
  "printed before after = drop (length (stdout before)) (stdout after)"

text \<open>A value given to a scroll bar lies within the pan limits of the view \<open>g\<close>.\<close>

fun within_pan_limits :: "QtInfiniteGrid \<Rightarrow> qt_call \<Rightarrow> bool" where
  "within_pan_limits g (horizontalScrollBar_setValue v) =
     (- real_of_int (qt_pan_limit_x g) \<le> v \<and> v \<le> real_of_int (qt_pan_limit_x g))"
| "within_pan_limits g (verticalScrollBar_setValue v) =
     (- real_of_int (qt_pan_limit_y g) \<le> v \<and> v \<le> real_of_int (qt_pan_limit_y g))"
| "within_pan_limits g (scale sx sy) = True"

text \<open>The answers of a view that is neither scrolled nor scaled, for concrete runs.\<close>

definition plain_view :: qt_answers where
  "plain_view =
     \<lparr> mapToScene = (\<lambda>p. (real_of_int (fst p), real_of_int (snd p))),
       horizontalScrollBar_value = 0,
       verticalScrollBar_value = 0 \<rparr>"

text \<open>The text \<open>.vs\<close> occurs somewhere in a name.\<close>

fun has_vs :: "string \<Rightarrow> bool" where
  "has_vs [] = False"
| "has_vs (c # cs) = (take 3 (c # cs) = ''.vs'' \<or> has_vs cs)"

text \<open>
  Saving the window and then loading the file, with what the save has left in it, into
  the same window, the file system raising nothing; and loading it into a freshly started
  program instead.
\<close>

definition save_and_load :: "MainWindow \<Rightarrow> MainWindow option" where
  "save_and_load w =
     (case save_to_vsm1 w None of
        (w', None) \<Rightarrow> None
      | (w', Some a) \<Rightarrow> Some (load_from_vsm1 w' (Opened a)))"

definition save_and_load_afresh :: "MainWindow \<Rightarrow> MainWindow option" where
  "save_and_load_afresh w =
     (case save_to_vsm1 w None of
        (w', None) \<Rightarrow> None
      | (w', Some a) \<Rightarrow> Some (load_from_vsm1 MainWindow_init (Opened a)))"

text \<open>Adding one tab per name, in order, as the loop of \<open>load_from_vsm1\<close> does.\<close>

definition add_tabs :: "MainWindow \<Rightarrow> string list \<Rightarrow> MainWindow" where
  "add_tabs w names = foldl add_tab w names"

text \<open>A press of the left button, the only event that assigns \<open>last_mouse_pos\<close> in Main.py.\<close>

fun is_left_press :: "qt_event \<Rightarrow> bool" where
  "is_left_press (MousePress left pos) = left"
| "is_left_press (MouseMove left_held pos qt) = False"
| "is_left_press (MouseRelease left) = False"
| "is_left_press (Wheel angle_delta_y) = False"

text \<open>
  A tab name that \<open>save_to_vsm1\<close> can write: it has no NUL character, and with \<open>.vs\<close>
  appended it is at most 65535 bytes long.
\<close>

definition fits_zip :: "string \<Rightarrow> bool" where
  "fits_zip name = (CHR 0x00 \<notin> set name \<and> length name \<le> 65532)"

text \<open>The entries that the loop of \<open>save_to_vsm1\<close> writes when no \<open>writestr\<close> raises.\<close>

definition vsm1_entries :: "(string \<times> 'a) list \<Rightarrow> archive" where
  "vsm1_entries ts =
     map (\<lambda>(tab_name, tab_data).
            (tab_name @ ''.vs'', Text (''Generated code for '' @ tab_name @ ''.''))) ts"

text \<open>
  The workspace is in step with \<open>self.tabs\<close>: the keys are the titles of the notebook's
  pages, in order, each referring to its own page. This is so as long as no name has been
  added twice.
\<close>

definition tabs_are_the_pages :: "MainWindow \<Rightarrow> bool" where
  "tabs_are_the_pages w =
     (tabs w = zip (map page_text (notebook w)) [0..<length (notebook w)])"

text \<open>A name of 65533 bytes, which an archive can hold as an entry name.\<close>

definition long_name :: string where
  "long_name = replicate 65533 CHR ''a''"

text \<open>
  Three windows for concrete runs: the freshly started program after loading an archive
  with the entries \<open>b.vs\<close> and \<open>a.vs\<close>; the same after zooming out the canvas of the tab
  \<open>b\<close>; and the freshly started program after loading an archive whose one entry is named
  \<open>long_name\<close>.
\<close>

definition three_tabs :: MainWindow where
  "three_tabs = load_from_vsm1 MainWindow_init (Opened [(''b.vs'', Text []), (''a.vs'', Text [])])"

definition three_tabs_zoomed :: MainWindow where
  "three_tabs_zoomed = grid_event three_tabs 1 (MouseWheel (- 120))"

definition long_tab :: MainWindow where
  "long_tab = load_from_vsm1 MainWindow_init (Opened [(long_name, Text [])])"

section \<open>Strings\<close>

text \<open>
  The defining equation of \<open>str_replace\<close> unfolds for ever on a string that is not known;
  the two equations below are the ones used for rewriting.
\<close>

declare str_replace.simps [simp del]

lemma str_replace_Nil [simp]: "str_replace old new [] = []"
  by (subst str_replace.simps) simp

lemma str_replace_Cons [simp]:
  "str_replace old new (c # cs) =
     (if old \<noteq> [] \<and> take (length old) (c # cs) = old
      then new @ str_replace old new (drop (length old) (c # cs))
      else c # str_replace old new cs)"
  by (subst str_replace.simps) simp

lemma str_replace_vs_Cons:
  "str_replace ''.vs'' [] (c # cs) =
     (if take 3 (c # cs) = ''.vs'' then str_replace ''.vs'' [] (drop 3 (c # cs))
      else c # str_replace ''.vs'' [] cs)"
proof -
  have l: "length ''.vs'' = 3"
    by simp
  show ?thesis
    by (simp only: str_replace_Cons l) simp
qed

text \<open>\<open>has_vs\<close> says what it is meant to say.\<close>

lemma has_vs_iff: "has_vs name \<longleftrightarrow> (\<exists>p s. name = p @ ''.vs'' @ s)"
proof (induction name)
  case Nil
  show ?case by simp
next
  case (Cons c cs)
  note IH = Cons.IH
  show ?case
  proof
    assume "has_vs (c # cs)"
    then consider "take 3 (c # cs) = ''.vs''" | "has_vs cs"
      by auto
    then show "\<exists>p s. c # cs = p @ ''.vs'' @ s"
    proof cases
      case 1
      have "c # cs = take 3 (c # cs) @ drop 3 (c # cs)"
        by (simp only: append_take_drop_id)
      with 1 have "c # cs = [] @ ''.vs'' @ drop 3 (c # cs)"
        by simp
      then show ?thesis by blast
    next
      case 2
      with IH obtain p s where "cs = p @ ''.vs'' @ s"
        by blast
      then have "c # cs = (c # p) @ ''.vs'' @ s"
        by simp
      then show ?thesis by blast
    qed
  next
    assume "\<exists>p s. c # cs = p @ ''.vs'' @ s"
    then obtain p s where ps: "c # cs = p @ ''.vs'' @ s"
      by blast
    show "has_vs (c # cs)"
    proof (cases p)
      case Nil
      with ps have "take 3 (c # cs) = ''.vs''"
        by simp
      then show ?thesis by simp
    next
      case (Cons c' p')
      with ps have "cs = p' @ ''.vs'' @ s"
        by simp
      with IH have "has_vs cs"
        by blast
      then show ?thesis by simp
    qed
  qed
qed

section \<open>The canvas: zoom and pan\<close>

lemma dispatch_limits:
  "pan_limit_x (dispatch g ev) = pan_limit_x g \<and> pan_limit_y (dispatch g ev) = pan_limit_y g
   \<and> min_scale_factor (dispatch g ev) = min_scale_factor g
   \<and> max_scale_factor (dispatch g ev) = max_scale_factor g"
  by (cases ev)
     (simp_all add: mouse_press_def mouse_move_def mouse_release_def wheel_event_def Let_def
        split: option.split prod.split)

lemma dispatch_pan_x:
  assumes "0 \<le> pan_limit_x g" and "- pan_limit_x g \<le> pan_offset_x g"
    and "pan_offset_x g \<le> pan_limit_x g"
  shows "- pan_limit_x g \<le> pan_offset_x (dispatch g ev)
    \<and> pan_offset_x (dispatch g ev) \<le> pan_limit_x g"
  using assms
  by (cases ev)
     (auto simp: mouse_press_def mouse_move_def mouse_release_def wheel_event_def Let_def
        split: option.split prod.split)

lemma dispatch_pan_y:
  assumes "0 \<le> pan_limit_y g" and "- pan_limit_y g \<le> pan_offset_y g"
    and "pan_offset_y g \<le> pan_limit_y g"
  shows "- pan_limit_y g \<le> pan_offset_y (dispatch g ev)
    \<and> pan_offset_y (dispatch g ev) \<le> pan_limit_y g"
  using assms
  by (cases ev)
     (auto simp: mouse_press_def mouse_move_def mouse_release_def wheel_event_def Let_def
        split: option.split prod.split)

lemma run_events_pan:
  assumes "0 \<le> pan_limit_x g" and "- pan_limit_x g \<le> pan_offset_x g"
    and "pan_offset_x g \<le> pan_limit_x g"
    and "0 \<le> pan_limit_y g" and "- pan_limit_y g \<le> pan_offset_y g"
    and "pan_offset_y g \<le> pan_limit_y g"
  shows "pan_limit_x (run_events g evs) = pan_limit_x g
    \<and> pan_limit_y (run_events g evs) = pan_limit_y g
    \<and> - pan_limit_x g \<le> pan_offset_x (run_events g evs)
    \<and> pan_offset_x (run_events g evs) \<le> pan_limit_x g
    \<and> - pan_limit_y g \<le> pan_offset_y (run_events g evs)
    \<and> pan_offset_y (run_events g evs) \<le> pan_limit_y g"
  using assms unfolding run_events_def
proof (induction evs arbitrary: g)
  case Nil
  then show ?case by simp
next
  case (Cons ev evs)
  have l: "pan_limit_x (dispatch g ev) = pan_limit_x g"
    "pan_limit_y (dispatch g ev) = pan_limit_y g"
    by (simp_all add: dispatch_limits)
  have x: "- pan_limit_x g \<le> pan_offset_x (dispatch g ev)
      \<and> pan_offset_x (dispatch g ev) \<le> pan_limit_x g"
    using Cons.prems by (intro dispatch_pan_x) simp_all
  have y: "- pan_limit_y g \<le> pan_offset_y (dispatch g ev)
      \<and> pan_offset_y (dispatch g ev) \<le> pan_limit_y g"
    using Cons.prems by (intro dispatch_pan_y) simp_all
  from Cons.IH [of "dispatch g ev"] l x y Cons.prems(1,4)
  show ?case by simp
qed

lemma qt_dispatch_limits:
  "qt_pan_limit_x (qt_dispatch g ev) = qt_pan_limit_x g
   \<and> qt_pan_limit_y (qt_dispatch g ev) = qt_pan_limit_y g
   \<and> qt_min_scale_factor (qt_dispatch g ev) = qt_min_scale_factor g
   \<and> qt_max_scale_factor (qt_dispatch g ev) = qt_max_scale_factor g"
  by (cases ev)
     (simp_all add: mousePressEvent_def mouseMoveEvent_def mouseReleaseEvent_def wheelEvent_def
        Let_def split: option.split prod.split)

lemma within_pan_limits_cong:
  assumes "qt_pan_limit_x g' = qt_pan_limit_x g" and "qt_pan_limit_y g' = qt_pan_limit_y g"
  shows "within_pan_limits g' c = within_pan_limits g c"
  using assms by (cases c) simp_all

lemma qt_dispatch_calls:
  assumes "0 \<le> qt_pan_limit_x g" and "0 \<le> qt_pan_limit_y g"
    and "\<forall>c\<in>set (qt_calls g). within_pan_limits g c"
  shows "\<forall>c\<in>set (qt_calls (qt_dispatch g ev)). within_pan_limits g c"
  using assms
  by (cases ev)
     (auto simp: mousePressEvent_def mouseMoveEvent_def mouseReleaseEvent_def wheelEvent_def
        Let_def split: option.split prod.split)

lemma qt_run_events_calls:
  assumes "0 \<le> qt_pan_limit_x g" and "0 \<le> qt_pan_limit_y g"
    and "\<forall>c\<in>set (qt_calls g). within_pan_limits g c"
  shows "\<forall>c\<in>set (qt_calls (qt_run_events g evs)). within_pan_limits g c"
  using assms unfolding qt_run_events_def
proof (induction evs arbitrary: g)
  case Nil
  then show ?case by simp
next
  case (Cons ev evs)
  have same: "\<And>c. within_pan_limits (qt_dispatch g ev) c = within_pan_limits g c"
    by (rule within_pan_limits_cong) (simp_all add: qt_dispatch_limits)
  show ?case
    using Cons.IH [of "qt_dispatch g ev"] qt_dispatch_calls [OF Cons.prems, of ev] Cons.prems(1,2)
    by (simp add: qt_dispatch_limits same)
qed

text \<open>
  \<^bold>\<open>C7\<close>. Panning is clamped in both programs. In Mainport.py, after every sequence of
  events delivered to a freshly constructed canvas (presses, moves, releases, wheel
  events), \<open>pan_offset_x\<close> lies within \<open>[-pan_limit_x, pan_limit_x]\<close> and \<open>pan_offset_y\<close>
  within \<open>[-pan_limit_y, pan_limit_y]\<close>, the limits still being 5000. In Main.py, after
  every sequence of events delivered to a freshly constructed view, whatever Qt answers,
  every value that \<open>mouseMoveEvent\<close> has given to a scroll bar lies within \<open>[-5000, 5000]\<close>.
\<close>

theorem panning_is_clamped:
  "pan_limit_x (run_events InfiniteGrid_init evs) = 5000
   \<and> pan_limit_y (run_events InfiniteGrid_init evs) = 5000
   \<and> - 5000 \<le> pan_offset_x (run_events InfiniteGrid_init evs)
   \<and> pan_offset_x (run_events InfiniteGrid_init evs) \<le> 5000
   \<and> - 5000 \<le> pan_offset_y (run_events InfiniteGrid_init evs)
   \<and> pan_offset_y (run_events InfiniteGrid_init evs) \<le> 5000
   \<and> qt_pan_limit_x QtInfiniteGrid_init = 5000
   \<and> qt_pan_limit_y QtInfiniteGrid_init = 5000
   \<and> (\<forall>c\<in>set (qt_calls (qt_run_events QtInfiniteGrid_init qevs)).
         within_pan_limits QtInfiniteGrid_init c)"
proof -
  have tk: "pan_limit_x (run_events InfiniteGrid_init evs) = pan_limit_x InfiniteGrid_init
    \<and> pan_limit_y (run_events InfiniteGrid_init evs) = pan_limit_y InfiniteGrid_init
    \<and> - pan_limit_x InfiniteGrid_init \<le> pan_offset_x (run_events InfiniteGrid_init evs)
    \<and> pan_offset_x (run_events InfiniteGrid_init evs) \<le> pan_limit_x InfiniteGrid_init
    \<and> - pan_limit_y InfiniteGrid_init \<le> pan_offset_y (run_events InfiniteGrid_init evs)
    \<and> pan_offset_y (run_events InfiniteGrid_init evs) \<le> pan_limit_y InfiniteGrid_init"
    by (rule run_events_pan) (simp_all add: InfiniteGrid_init_def)
  have qt: "\<forall>c\<in>set (qt_calls (qt_run_events QtInfiniteGrid_init qevs)).
      within_pan_limits QtInfiniteGrid_init c"
    by (rule qt_run_events_calls) (simp_all add: QtInfiniteGrid_init_def)
  from tk qt show ?thesis
    by (simp add: InfiniteGrid_init_def QtInfiniteGrid_init_def)
qed

theorem panning_is_clamped_witness:
  "pan_offset_x (run_events InfiniteGrid_init [ButtonPress_1 0 0, B1_Motion 7000 (- 20)]) = 5000
   \<and> pan_offset_y (run_events InfiniteGrid_init [ButtonPress_1 0 0, B1_Motion 7000 (- 20)]) = - 20
   \<and> horizontalScrollBar_setValue (- 5000) \<in> set (qt_calls (qt_run_events QtInfiniteGrid_init
        [MousePress True (1, 1), MouseMove True (9001, 4) plain_view]))
   \<and> within_pan_limits QtInfiniteGrid_init (horizontalScrollBar_setValue (- 5000))"
proof -
  let ?qevs = "[MousePress True (1, 1), MouseMove True (9001, 4) plain_view]"
  have tk: "pan_offset_x (run_events InfiniteGrid_init [ButtonPress_1 0 0, B1_Motion 7000 (- 20)]) = 5000
     \<and> pan_offset_y (run_events InfiniteGrid_init [ButtonPress_1 0 0, B1_Motion 7000 (- 20)]) = - 20"
    by (simp add: run_events_def InfiniteGrid_init_def mouse_press_def mouse_move_def)
  have mem: "horizontalScrollBar_setValue (- 5000) \<in> set (qt_calls (qt_run_events QtInfiniteGrid_init ?qevs))"
    by (simp add: qt_run_events_def QtInfiniteGrid_init_def mousePressEvent_def
        mouseMoveEvent_def QPoint_bool_def plain_view_def Let_def)
  from panning_is_clamped [of "[ButtonPress_1 0 0, B1_Motion 7000 (- 20)]" ?qevs] mem
  have "within_pan_limits QtInfiniteGrid_init (horizontalScrollBar_setValue (- 5000))"
    by blast
  with tk mem show ?thesis by blast
qed

lemma run_events_limits:
  "pan_limit_x (run_events g evs) = pan_limit_x g \<and> pan_limit_y (run_events g evs) = pan_limit_y g
   \<and> min_scale_factor (run_events g evs) = min_scale_factor g
   \<and> max_scale_factor (run_events g evs) = max_scale_factor g"
  unfolding run_events_def
  by (induction evs arbitrary: g) (simp_all add: dispatch_limits)

lemma wheel_event_cases:
  "wheel_event g delta = g
   \<or> (min_scale_factor g \<le> scale_factor (wheel_event g delta)
      \<and> scale_factor (wheel_event g delta) \<le> max_scale_factor g)"
  by (simp add: wheel_event_def Let_def)

lemma wheel_event_rejects:
  assumes "\<not> (min_scale_factor g \<le> scale_factor g * (if delta > 0 then 1.25 else 0.8)
             \<and> scale_factor g * (if delta > 0 then 1.25 else 0.8) \<le> max_scale_factor g)"
  shows "wheel_event g delta = g"
  using assms by (cases "delta > 0") (auto simp: wheel_event_def Let_def)

lemma dispatch_scale:
  assumes "min_scale_factor g \<le> scale_factor g \<and> scale_factor g \<le> max_scale_factor g"
  shows "min_scale_factor g \<le> scale_factor (dispatch g ev)
    \<and> scale_factor (dispatch g ev) \<le> max_scale_factor g"
  using assms
  by (cases ev)
     (auto simp: mouse_press_def mouse_move_def mouse_release_def wheel_event_def Let_def
        split: option.split prod.split)

lemma run_events_scale:
  assumes "min_scale_factor g \<le> scale_factor g \<and> scale_factor g \<le> max_scale_factor g"
  shows "min_scale_factor g \<le> scale_factor (run_events g evs)
    \<and> scale_factor (run_events g evs) \<le> max_scale_factor g"
  using assms unfolding run_events_def
proof (induction evs arbitrary: g)
  case Nil
  then show ?case by simp
next
  case (Cons ev evs)
  from Cons.IH [of "dispatch g ev"] dispatch_scale [OF Cons.prems, of ev]
  show ?case by (simp add: dispatch_limits)
qed

lemma run_events_scale_init:
  "scale_factor (run_events InfiniteGrid_init evs) = 1
   \<or> (0.25 \<le> scale_factor (run_events InfiniteGrid_init evs)
      \<and> scale_factor (run_events InfiniteGrid_init evs) \<le> 0.85)"
proof (induction evs rule: rev_induct)
  case Nil
  then show ?case by (simp add: run_events_def InfiniteGrid_init_def)
next
  case (snoc ev evs)
  let ?g = "run_events InfiniteGrid_init evs"
  have lim: "min_scale_factor ?g = 0.25" "max_scale_factor ?g = 0.85"
    using run_events_limits [of InfiniteGrid_init evs] by (simp_all add: InfiniteGrid_init_def)
  have step: "run_events InfiniteGrid_init (evs @ [ev]) = dispatch ?g ev"
    by (simp add: run_events_def)
  from snoc show ?case
  proof
    assume one: "scale_factor ?g = 1"
    show ?thesis
      unfolding step using one lim
      by (cases ev)
         (auto simp: mouse_press_def mouse_move_def mouse_release_def wheel_event_def Let_def
            split: option.split prod.split)
  next
    assume "0.25 \<le> scale_factor ?g \<and> scale_factor ?g \<le> 0.85"
    with lim dispatch_scale [of ?g ev] show ?thesis
      unfolding step by simp
  qed
qed

lemma wheelEvent_cases:
  "wheelEvent g angle_delta_y = g
   \<or> (qt_min_scale_factor g \<le> qt_scale_factor (wheelEvent g angle_delta_y)
      \<and> qt_scale_factor (wheelEvent g angle_delta_y) \<le> qt_max_scale_factor g)"
  by (simp add: wheelEvent_def Let_def)

lemma qt_dispatch_scale:
  assumes "qt_min_scale_factor g \<le> qt_scale_factor g \<and> qt_scale_factor g \<le> qt_max_scale_factor g"
  shows "qt_min_scale_factor g \<le> qt_scale_factor (qt_dispatch g ev)
    \<and> qt_scale_factor (qt_dispatch g ev) \<le> qt_max_scale_factor g"
  using assms
  by (cases ev)
     (auto simp: mousePressEvent_def mouseMoveEvent_def mouseReleaseEvent_def wheelEvent_def
        Let_def split: option.split prod.split)

text \<open>
  \<^bold>\<open>C3\<close>. The zoom limits are broken by the constructors, not by the wheel handlers. Both
  constructors set \<open>scale_factor\<close> to 1.0 although \<open>max_scale_factor\<close> is 0.85, so the
  scale of a freshly constructed view lies outside \<open>[min_scale_factor, max_scale_factor]\<close>,
  and it stays there over a wheel event that zooms in (1.25 is refused). The first wheel
  event that zooms out brings it to 0.8, and a second one that zooms in is refused again:
  the initial scale cannot be reached any more.
\<close>

theorem initial_scale_exceeds_max_scale_factor:
  "scale_factor InfiniteGrid_init = 1
   \<and> max_scale_factor InfiniteGrid_init = 0.85
   \<and> \<not> scale_factor InfiniteGrid_init \<le> max_scale_factor InfiniteGrid_init
   \<and> scale_factor (run_events InfiniteGrid_init [MouseWheel 120]) = 1
   \<and> scale_factor (run_events InfiniteGrid_init [MouseWheel (- 120)]) = 0.8
   \<and> scale_factor (run_events InfiniteGrid_init [MouseWheel (- 120), MouseWheel 120]) = 0.8
   \<and> qt_scale_factor QtInfiniteGrid_init = 1
   \<and> qt_max_scale_factor QtInfiniteGrid_init = 0.85
   \<and> \<not> qt_scale_factor QtInfiniteGrid_init \<le> qt_max_scale_factor QtInfiniteGrid_init
   \<and> qt_scale_factor (qt_run_events QtInfiniteGrid_init [Wheel 120]) = 1
   \<and> qt_scale_factor (qt_run_events QtInfiniteGrid_init [Wheel (- 120)]) = 0.8"
  by (simp add: InfiniteGrid_init_def QtInfiniteGrid_init_def run_events_def qt_run_events_def
      wheel_event_def wheelEvent_def Let_def)

section \<open>The workspace: generate, save, load\<close>

text \<open>
  \<^bold>\<open>C6\<close>. For every language argument and every state of the window, \<open>generate_code\<close>
  returns \<open>None\<close>, prints the one line \<open>Generated <language> code.\<close> and changes nothing
  else: putting \<open>stdout\<close> back gives exactly the window before the call, so the pages, the
  tabs with all they refer to, the menu and the message boxes are as they were.
\<close>

theorem generate_code_only_prints:
  "fst (generate_code w language) = None
   \<and> printed w (snd (generate_code w language)) = [''Generated '' @ language @ '' code.'']
   \<and> (snd (generate_code w language))\<lparr>stdout := stdout w\<rparr> = w
   \<and> notebook (snd (generate_code w language)) = notebook w
   \<and> tabs (snd (generate_code w language)) = tabs w
   \<and> project_of (snd (generate_code w language)) = project_of w
   \<and> menubar (snd (generate_code w language)) = menubar w
   \<and> dialogs (snd (generate_code w language)) = dialogs w"
  by (simp add: generate_code_def printed_def project_of_def)

lemma zip_filename_fits:
  assumes "fits_zip name"
  shows "zip_filename (name @ ''.vs'') = name @ ''.vs''"
proof -
  from assms have "\<forall>c\<in>set (name @ ''.vs''). c \<noteq> CHR 0x00"
    by (auto simp: fits_zip_def)
  then show ?thesis
    unfolding zip_filename_def by (simp only: takeWhile_eq_all_conv)
qed

lemma writestr_fits:
  assumes "fits_zip name"
  shows "writestr a (name @ ''.vs'') data = Inr (a @ [(name @ ''.vs'', Text data)])"
proof -
  from assms have "length (name @ ''.vs'') \<le> 65535"
    by (simp add: fits_zip_def)
  then show ?thesis
    by (simp add: writestr_def zip_filename_fits [OF assms] Let_def)
qed

lemma writestr_too_long:
  assumes "CHR 0x00 \<notin> set name" and "65532 < length name"
  shows "writestr a (name @ ''.vs'') data
    = Inl (struct_error ''ushort format requires 0 <= number <= 65535'')"
proof -
  from assms(1) have "\<forall>c\<in>set (name @ ''.vs''). c \<noteq> CHR 0x00"
    by auto
  then have z: "zip_filename (name @ ''.vs'') = name @ ''.vs''"
    unfolding zip_filename_def by (simp only: takeWhile_eq_all_conv)
  from assms(2) have "65535 < length (name @ ''.vs'')"
    by simp
  then show ?thesis
    by (simp add: writestr_def z Let_def)
qed

lemma write_tabs_fits:
  assumes "\<forall>name\<in>set (map fst ts). fits_zip name"
  shows "write_tabs ts a = Inr (a @ vsm1_entries ts)"
  using assms
proof (induction ts arbitrary: a)
  case Nil
  show ?case by (simp add: vsm1_entries_def)
next
  case (Cons t ts)
  obtain tab_name tab_data where t: "t = (tab_name, tab_data)" by (cases t)
  from Cons.prems t have f: "fits_zip tab_name" and rest: "\<forall>name\<in>set (map fst ts). fits_zip name"
    by simp_all
  show ?case
    unfolding t using Cons.IH [OF rest] writestr_fits [OF f]
    by (simp add: vsm1_entries_def)
qed

lemma write_tabs_append:
  "write_tabs (ts1 @ ts2) a =
     (case write_tabs ts1 a of Inl raised \<Rightarrow> Inl raised | Inr a' \<Rightarrow> write_tabs ts2 a')"
proof (induction ts1 arbitrary: a)
  case Nil
  show ?case by simp
next
  case (Cons t ts1)
  obtain tab_name tab_data where t: "t = (tab_name, tab_data)" by (cases t)
  show ?case
    unfolding t using Cons.IH by (simp split: sum.split)
qed

lemma write_tabs_stops:
  assumes "\<forall>n\<in>set (map fst pre). fits_zip n"
    and "CHR 0x00 \<notin> set name" and "65532 < length name"
  shows "write_tabs (pre @ (name, tab_data) # post) a
    = Inl (struct_error ''ushort format requires 0 <= number <= 65535'', a @ vsm1_entries pre)"
  using write_tabs_fits [OF assms(1), of a] writestr_too_long [OF assms(2,3)]
  by (simp add: write_tabs_append)

lemma vsm1_entries_by_name:
  "vsm1_entries ts =
     map (\<lambda>name. (name @ ''.vs'', Text (''Generated code for '' @ name @ ''.''))) (map fst ts)"
  by (induction ts) (auto simp: vsm1_entries_def)

lemma namelist_vsm1_entries:
  "namelist (vsm1_entries ts) = map (\<lambda>name. name @ ''.vs'') (map fst ts)"
  by (simp add: vsm1_entries_by_name namelist_def comp_def)

lemma distinct_vs_names:
  "distinct names \<Longrightarrow> distinct (map (\<lambda>name. name @ ''.vs'') names)"
  by (simp add: distinct_map inj_on_def)

lemma save_to_vsm1_fits:
  assumes "\<forall>name\<in>set (map fst (tabs w)). fits_zip name"
  shows "save_to_vsm1 w None =
     (w\<lparr>dialogs := dialogs w @ [showinfo ''Save'' ''File saved successfully.'']\<rparr>,
      Some (vsm1_entries (tabs w)))"
  using write_tabs_fits [OF assms, of "[]"] by (simp add: save_to_vsm1_def)

lemma tabs_are_the_pages_names:
  assumes "tabs_are_the_pages w"
  shows "map fst (tabs w) = map page_text (notebook w)"
proof -
  have "map fst (zip (map page_text (notebook w)) [0..<length (notebook w)])
      = map page_text (notebook w)"
    by (rule map_fst_zip) simp
  with assms show ?thesis
    by (simp only: tabs_are_the_pages_def)
qed

lemma str_replace_no_vs:
  "\<not> has_vs s \<Longrightarrow> str_replace ''.vs'' [] s = s"
proof (induction s)
  case Nil
  show ?case by simp
next
  case (Cons c cs)
  from Cons.prems have no: "take 3 (c # cs) \<noteq> ''.vs''" and rest: "\<not> has_vs cs"
    by simp_all
  from no have "str_replace ''.vs'' [] (c # cs) = c # str_replace ''.vs'' [] cs"
    by (simp only: str_replace_vs_Cons if_False)
  with Cons.IH [OF rest] show ?case by simp
qed

lemma replicate_a_no_vs: "\<not> has_vs (replicate n CHR ''a'')"
  by (induction n) simp_all

lemma long_name_facts:
  "length long_name = 65533"
  "CHR 0x00 \<notin> set long_name"
  "\<not> has_vs long_name"
  "long_name \<noteq> ''Script 1''"
proof -
  show l: "length long_name = 65533"
    by (simp only: long_name_def length_replicate)
  show "CHR 0x00 \<notin> set long_name"
    by (simp only: long_name_def set_replicate_conv_if) simp
  show "\<not> has_vs long_name"
    unfolding long_name_def by (rule replicate_a_no_vs)
  show "long_name \<noteq> ''Script 1''"
  proof
    assume "long_name = ''Script 1''"
    then have "length long_name = length ''Script 1''"
      by (rule arg_cong)
    with l show False by simp
  qed
qed

lemma three_tabs_eq:
  "three_tabs =
     \<lparr>notebook = [\<lparr>page_text = ''Script 1'', page_grid = InfiniteGrid_init\<rparr>,
                  \<lparr>page_text = ''b'', page_grid = InfiniteGrid_init\<rparr>,
                  \<lparr>page_text = ''a'', page_grid = InfiniteGrid_init\<rparr>],
      tabs = [(''Script 1'', 0), (''b'', 1), (''a'', 2)],
      menubar = menubar MainWindow_init,
      stdout = [''Loaded b.vs: '', ''Loaded a.vs: ''],
      dialogs = [showinfo ''Load'' ''File loaded successfully.'']\<rparr>"
  by (simp add: three_tabs_def load_from_vsm1_def MainWindow_init_def add_tab_def create_menu_def
      namelist_def load_entry_def read_decode_def)

lemma three_tabs_zoomed_eq:
  "three_tabs_zoomed =
     \<lparr>notebook = [\<lparr>page_text = ''Script 1'', page_grid = InfiniteGrid_init\<rparr>,
                  \<lparr>page_text = ''b'', page_grid = InfiniteGrid_init\<lparr>scale_factor := 0.8\<rparr>\<rparr>,
                  \<lparr>page_text = ''a'', page_grid = InfiniteGrid_init\<rparr>],
      tabs = [(''Script 1'', 0), (''b'', 1), (''a'', 2)],
      menubar = menubar MainWindow_init,
      stdout = [''Loaded b.vs: '', ''Loaded a.vs: ''],
      dialogs = [showinfo ''Load'' ''File loaded successfully.'']\<rparr>"
  unfolding three_tabs_zoomed_def three_tabs_eq
  by (simp add: grid_event_def InfiniteGrid_init_def wheel_event_def Let_def)

lemma long_tab_eq:
  "long_tab =
     \<lparr>notebook = [\<lparr>page_text = ''Script 1'', page_grid = InfiniteGrid_init\<rparr>,
                  \<lparr>page_text = long_name, page_grid = InfiniteGrid_init\<rparr>],
      tabs = [(''Script 1'', 0), (long_name, 1)],
      menubar = menubar MainWindow_init,
      stdout = [''Loaded '' @ long_name @ '': ''],
      dialogs = [showinfo ''Load'' ''File loaded successfully.'']\<rparr>"
  using long_name_facts(4) long_name_facts(4) [symmetric]
  by (simp add: long_tab_def load_from_vsm1_def MainWindow_init_def add_tab_def create_menu_def
      namelist_def load_entry_def read_decode_def str_replace_no_vs [OF long_name_facts(3)])

text \<open>
  \<^bold>\<open>C5\<close>. Saving to a file that can be created. When every tab name of \<open>self.tabs\<close> can be
  written (no NUL character, at most 65532 bytes), the success box is shown and the
  archive holds exactly one entry per item of \<open>self.tabs\<close>, in order: the entry is named
  after the tab (\<open><name>.vs\<close>) and its content is the text \<open>Generated code for <name>.\<close>; the
  entry names are distinct, as the tab names are, and the content is built from the tab
  name alone, so that two windows with the same tab names write the same archive whatever
  their canvases hold. When the workspace is in step with \<open>self.tabs\<close>, this is one entry
  per page of the notebook. When a tab name is too long, the save stops at it with an
  error box and the archive holds only the entries of the tabs before it. When the file
  cannot be created, there is no archive.
\<close>

theorem save_writes_one_placeholder_per_fitting_tab:
  "((\<forall>name\<in>set (map fst (tabs w)). fits_zip name) \<longrightarrow>
      save_to_vsm1 w None =
        (w\<lparr>dialogs := dialogs w @ [showinfo ''Save'' ''File saved successfully.'']\<rparr>,
         Some (map (\<lambda>name. (name @ ''.vs'', Text (''Generated code for '' @ name @ ''.'')))
                 (map fst (tabs w))))
      \<and> (\<exists>a. snd (save_to_vsm1 w None) = Some a \<and> length a = length (tabs w)
            \<and> namelist a = map (\<lambda>name. name @ ''.vs'') (map fst (tabs w))
            \<and> (distinct (map fst (tabs w)) \<longrightarrow> distinct (namelist a)))
      \<and> (map fst (tabs w') = map fst (tabs w) \<longrightarrow>
            snd (save_to_vsm1 w' None) = snd (save_to_vsm1 w None))
      \<and> (tabs_are_the_pages w \<longrightarrow>
            snd (save_to_vsm1 w None) =
              Some (map (\<lambda>p. (page_text p @ ''.vs'',
                               Text (''Generated code for '' @ page_text p @ ''.'')))
                      (notebook w))))
   \<and> (tabs w = pre @ (name, i) # post
        \<and> (\<forall>n\<in>set (map fst pre). fits_zip n)
        \<and> CHR 0x00 \<notin> set name \<and> 65532 < length name \<longrightarrow>
      save_to_vsm1 w None =
        (w\<lparr>dialogs := dialogs w @
             [showerror ''Error''
                ''Error saving file: ushort format requires 0 <= number <= 65535'']\<rparr>,
         Some (map (\<lambda>name. (name @ ''.vs'', Text (''Generated code for '' @ name @ ''.'')))
                 (map fst pre))))
   \<and> snd (save_to_vsm1 w (Some e)) = None"
proof -
  let ?entry = "\<lambda>name. (name @ ''.vs'', Text (''Generated code for '' @ name @ ''.''))"
  have ok: "save_to_vsm1 w None =
        (w\<lparr>dialogs := dialogs w @ [showinfo ''Save'' ''File saved successfully.'']\<rparr>,
         Some (map ?entry (map fst (tabs w))))
      \<and> (\<exists>a. snd (save_to_vsm1 w None) = Some a \<and> length a = length (tabs w)
            \<and> namelist a = map (\<lambda>name. name @ ''.vs'') (map fst (tabs w))
            \<and> (distinct (map fst (tabs w)) \<longrightarrow> distinct (namelist a)))
      \<and> (map fst (tabs w') = map fst (tabs w) \<longrightarrow>
            snd (save_to_vsm1 w' None) = snd (save_to_vsm1 w None))
      \<and> (tabs_are_the_pages w \<longrightarrow>
            snd (save_to_vsm1 w None) =
              Some (map (\<lambda>p. (page_text p @ ''.vs'',
                               Text (''Generated code for '' @ page_text p @ ''.'')))
                      (notebook w)))"
    if fit: "\<forall>name\<in>set (map fst (tabs w)). fits_zip name"
  proof -
    have s: "save_to_vsm1 w None =
        (w\<lparr>dialogs := dialogs w @ [showinfo ''Save'' ''File saved successfully.'']\<rparr>,
         Some (vsm1_entries (tabs w)))"
      by (rule save_to_vsm1_fits [OF fit])
    have 1: "save_to_vsm1 w None =
        (w\<lparr>dialogs := dialogs w @ [showinfo ''Save'' ''File saved successfully.'']\<rparr>,
         Some (map ?entry (map fst (tabs w))))"
      unfolding s by (simp only: vsm1_entries_by_name)
    have a: "snd (save_to_vsm1 w None) = Some (vsm1_entries (tabs w))"
      unfolding s by simp
    have b: "length (vsm1_entries (tabs w)) = length (tabs w)"
      by (simp only: vsm1_entries_def length_map)
    have n: "namelist (vsm1_entries (tabs w)) = map (\<lambda>name. name @ ''.vs'') (map fst (tabs w))"
      by (rule namelist_vsm1_entries)
    have c: "distinct (map fst (tabs w)) \<longrightarrow> distinct (namelist (vsm1_entries (tabs w)))"
      unfolding n using distinct_vs_names [of "map fst (tabs w)"] by blast
    have 2: "\<exists>a. snd (save_to_vsm1 w None) = Some a \<and> length a = length (tabs w)
            \<and> namelist a = map (\<lambda>name. name @ ''.vs'') (map fst (tabs w))
            \<and> (distinct (map fst (tabs w)) \<longrightarrow> distinct (namelist a))"
      using a b n c by blast
    have 3: "snd (save_to_vsm1 w' None) = snd (save_to_vsm1 w None)"
      if same: "map fst (tabs w') = map fst (tabs w)"
    proof -
      from fit same have "\<forall>name\<in>set (map fst (tabs w')). fits_zip name"
        by simp
      from save_to_vsm1_fits [OF this] have "snd (save_to_vsm1 w' None) = Some (vsm1_entries (tabs w'))"
        by simp
      with a same show ?thesis
        by (simp only: vsm1_entries_by_name)
    qed
    have 4: "snd (save_to_vsm1 w None) =
              Some (map (\<lambda>p. (page_text p @ ''.vs'',
                               Text (''Generated code for '' @ page_text p @ ''.'')))
                      (notebook w))"
      if "tabs_are_the_pages w"
      unfolding a vsm1_entries_by_name tabs_are_the_pages_names [OF that]
      by (simp add: comp_def)
    from 1 2 3 4 show ?thesis by blast
  qed
  have stop: "save_to_vsm1 w None =
        (w\<lparr>dialogs := dialogs w @
             [showerror ''Error''
                ''Error saving file: ushort format requires 0 <= number <= 65535'']\<rparr>,
         Some (map ?entry (map fst pre)))"
    if t: "tabs w = pre @ (name, i) # post"
      and fit: "\<forall>n\<in>set (map fst pre). fits_zip n"
      and nul: "CHR 0x00 \<notin> set name" and long: "65532 < length name"
  proof -
    have "write_tabs (tabs w) []
      = Inl (struct_error ''ushort format requires 0 <= number <= 65535'', vsm1_entries pre)"
      unfolding t using write_tabs_stops [OF fit nul long, of i post "[]"] by simp
    then show ?thesis
      by (simp add: save_to_vsm1_def vsm1_entries_by_name)
  qed
  have none: "snd (save_to_vsm1 w (Some e)) = None"
    by (simp add: save_to_vsm1_def)
  from ok stop none show ?thesis by blast
qed

theorem save_writes_one_placeholder_per_fitting_tab_witness:
  "map fst (tabs three_tabs_zoomed) = [''Script 1'', ''b'', ''a'']
   \<and> fits_zip ''Script 1'' \<and> fits_zip ''b'' \<and> fits_zip ''a''
   \<and> distinct (map fst (tabs three_tabs_zoomed))
   \<and> tabs_are_the_pages three_tabs_zoomed
   \<and> map page_text (notebook three_tabs_zoomed) = [''Script 1'', ''b'', ''a'']
   \<and> save_to_vsm1 three_tabs_zoomed None =
       (three_tabs_zoomed\<lparr>dialogs := dialogs three_tabs_zoomed @
            [showinfo ''Save'' ''File saved successfully.'']\<rparr>,
        Some [(''Script 1.vs'', Text ''Generated code for Script 1.''),
              (''b.vs'', Text ''Generated code for b.''),
              (''a.vs'', Text ''Generated code for a.'')])
   \<and> map fst (tabs three_tabs) = map fst (tabs three_tabs_zoomed)
   \<and> project_of three_tabs \<noteq> project_of three_tabs_zoomed
   \<and> snd (save_to_vsm1 three_tabs None) = snd (save_to_vsm1 three_tabs_zoomed None)
   \<and> tabs long_tab = [(''Script 1'', 0)] @ (long_name, 1) # []
   \<and> CHR 0x00 \<notin> set long_name \<and> 65532 < length long_name
   \<and> save_to_vsm1 long_tab None =
       (long_tab\<lparr>dialogs := dialogs long_tab @
            [showerror ''Error''
               ''Error saving file: ushort format requires 0 <= number <= 65535'']\<rparr>,
        Some [(''Script 1.vs'', Text ''Generated code for Script 1.'')])"
proof -
  have names: "map fst (tabs three_tabs_zoomed) = [''Script 1'', ''b'', ''a'']"
    "map fst (tabs three_tabs) = map fst (tabs three_tabs_zoomed)"
    "map page_text (notebook three_tabs_zoomed) = [''Script 1'', ''b'', ''a'']"
    by (simp_all add: three_tabs_eq three_tabs_zoomed_eq)
  have fits: "fits_zip ''Script 1''" "fits_zip ''b''" "fits_zip ''a''"
    by (simp_all add: fits_zip_def)
  have all: "\<forall>name\<in>set (map fst (tabs three_tabs_zoomed)). fits_zip name"
    unfolding names(1) using fits by simp
  have d: "distinct (map fst (tabs three_tabs_zoomed))"
    unfolding names(1) by simp
  have pages: "tabs_are_the_pages three_tabs_zoomed"
    by (simp add: tabs_are_the_pages_def three_tabs_zoomed_eq upt_rec)
  have differ: "project_of three_tabs \<noteq> project_of three_tabs_zoomed"
    by (simp add: project_of_def three_tabs_eq three_tabs_zoomed_eq InfiniteGrid_init_def)
  note th = save_writes_one_placeholder_per_fitting_tab
    [of three_tabs_zoomed three_tabs "[]" "[]" 0 "[]" "OSError []"]
  from th all have saved: "save_to_vsm1 three_tabs_zoomed None =
       (three_tabs_zoomed\<lparr>dialogs := dialogs three_tabs_zoomed @
            [showinfo ''Save'' ''File saved successfully.'']\<rparr>,
        Some (map (\<lambda>name. (name @ ''.vs'', Text (''Generated code for '' @ name @ ''.'')))
                (map fst (tabs three_tabs_zoomed))))"
    by blast
  have saved': "save_to_vsm1 three_tabs_zoomed None =
       (three_tabs_zoomed\<lparr>dialogs := dialogs three_tabs_zoomed @
            [showinfo ''Save'' ''File saved successfully.'']\<rparr>,
        Some [(''Script 1.vs'', Text ''Generated code for Script 1.''),
              (''b.vs'', Text ''Generated code for b.''),
              (''a.vs'', Text ''Generated code for a.'')])"
    unfolding saved names(1) by simp
  from th all names(2) have same: "snd (save_to_vsm1 three_tabs None)
      = snd (save_to_vsm1 three_tabs_zoomed None)"
    by blast
  have lt: "tabs long_tab = [(''Script 1'', 0)] @ (long_name, 1) # []"
    by (simp add: long_tab_eq)
  have long: "CHR 0x00 \<notin> set long_name" "65532 < length long_name"
    using long_name_facts(1,2) by simp_all
  have pre: "\<forall>n\<in>set (map fst [(''Script 1'', 0::nat)]). fits_zip n"
    using fits(1) by simp
  from save_writes_one_placeholder_per_fitting_tab
    [of long_tab long_tab "[(''Script 1'', 0)]" long_name 1 "[]" "OSError []"] lt pre long
  have "save_to_vsm1 long_tab None =
       (long_tab\<lparr>dialogs := dialogs long_tab @
            [showerror ''Error''
               ''Error saving file: ushort format requires 0 <= number <= 65535'']\<rparr>,
        Some (map (\<lambda>name. (name @ ''.vs'', Text (''Generated code for '' @ name @ ''.'')))
                (map fst [(''Script 1'', 0::nat)])))"
    by blast
  then have stopped: "save_to_vsm1 long_tab None =
       (long_tab\<lparr>dialogs := dialogs long_tab @
            [showerror ''Error''
               ''Error saving file: ushort format requires 0 <= number <= 65535'']\<rparr>,
        Some [(''Script 1.vs'', Text ''Generated code for Script 1.'')])"
    by simp
  from names(1) fits d pages names(3) saved' names(2) differ same lt long stopped
  show ?thesis by (intro conjI)
qed

text \<open>
  Two states in which the archive does not hold one entry per tab. The window \<open>long_tab\<close>
  has two tabs, the second with a name of 65533 bytes: its entry name does not fit, the
  save ends with an error box and the archive holds the entry of the first tab only. And
  after the freshly started program has loaded the file it has saved itself, the notebook
  has two pages titled \<open>Script 1\<close> for the one key of \<open>self.tabs\<close>, and the archive saved
  from it holds one entry.
\<close>

theorem archive_with_fewer_entries_than_tabs:
  "map fst (tabs long_tab) = [''Script 1'', long_name]
   \<and> map page_text (notebook long_tab) = [''Script 1'', long_name]
   \<and> length long_name = 65533
   \<and> snd (save_to_vsm1 long_tab None)
       = Some [(''Script 1.vs'', Text ''Generated code for Script 1.'')]
   \<and> dialogs (fst (save_to_vsm1 long_tab None))
       = [showinfo ''Load'' ''File loaded successfully.'',
          showerror ''Error'' ''Error saving file: ushort format requires 0 <= number <= 65535'']
   \<and> map page_text (notebook (load_from_vsm1 MainWindow_init
         (Opened [(''Script 1.vs'', Text ''Generated code for Script 1.'')])))
       = [''Script 1'', ''Script 1'']
   \<and> snd (save_to_vsm1 (load_from_vsm1 MainWindow_init
         (Opened [(''Script 1.vs'', Text ''Generated code for Script 1.'')])) None)
       = Some [(''Script 1.vs'', Text ''Generated code for Script 1.'')]"
proof -
  have w: "writestr [] ''Script 1.vs'' data = Inr [(''Script 1.vs'', Text data)]" for data
    by (simp add: writestr_def zip_filename_def Let_def)
  have l: "writestr a (long_name @ ''.vs'') data
      = Inl (struct_error ''ushort format requires 0 <= number <= 65535'')" for a data
    by (rule writestr_too_long) (simp_all add: long_name_facts)
  have s: "save_to_vsm1 long_tab None =
       (long_tab\<lparr>dialogs := dialogs long_tab @
            [showerror ''Error''
               ''Error saving file: ushort format requires 0 <= number <= 65535'']\<rparr>,
        Some [(''Script 1.vs'', Text ''Generated code for Script 1.'')])"
    by (simp add: save_to_vsm1_def long_tab_eq w l)
  have 1: "map fst (tabs long_tab) = [''Script 1'', long_name]"
    "map page_text (notebook long_tab) = [''Script 1'', long_name]"
    by (simp_all add: long_tab_eq)
  have 2: "snd (save_to_vsm1 long_tab None)
       = Some [(''Script 1.vs'', Text ''Generated code for Script 1.'')]"
    unfolding s by simp
  have 3: "dialogs (fst (save_to_vsm1 long_tab None))
       = [showinfo ''Load'' ''File loaded successfully.'',
          showerror ''Error'' ''Error saving file: ushort format requires 0 <= number <= 65535'']"
    unfolding s by (simp add: long_tab_eq)
  let ?dup = "load_from_vsm1 MainWindow_init
         (Opened [(''Script 1.vs'', Text ''Generated code for Script 1.'')])"
  have dup: "map page_text (notebook ?dup) = [''Script 1'', ''Script 1'']"
    "tabs ?dup = [(''Script 1'', 1)]"
    by (simp_all add: load_from_vsm1_def MainWindow_init_def add_tab_def create_menu_def
        namelist_def load_entry_def read_decode_def)
  have 4: "snd (save_to_vsm1 ?dup None)
       = Some [(''Script 1.vs'', Text ''Generated code for Script 1.'')]"
    by (simp add: save_to_vsm1_def dup(2) w)
  from 1 long_name_facts(1) 2 3 dup(1) 4 show ?thesis by (intro conjI)
qed

lemma dict_set_keys:
  "map fst (dict_set d k v) = (if k \<in> set (map fst d) then map fst d else map fst d @ [k])"
proof (induction d)
  case Nil
  show ?case by simp
next
  case (Cons p d)
  obtain k' v' where p: "p = (k', v')" by (cases p)
  show ?case
  proof (cases "k' = k")
    case True
    with p show ?thesis by simp
  next
    case False
    with p Cons.IH show ?thesis by simp
  qed
qed

lemma dict_set_distinct:
  "distinct (map fst d) \<Longrightarrow> distinct (map fst (dict_set d k v))"
  by (simp add: dict_set_keys)

lemma add_tab_keeps_keys_distinct:
  "distinct (map fst (tabs w)) \<Longrightarrow> distinct (map fst (tabs (add_tab w name)))"
  by (simp add: add_tab_def dict_set_distinct)

text \<open>
  \<^bold>\<open>C8\<close>. \<open>add_tab\<close> does not look whether the name is taken. Loading the archive that
  the freshly started program has itself saved adds a second page titled \<open>Script 1\<close> to
  the notebook; the one key \<open>Script 1\<close> of \<open>self.tabs\<close> then refers to the new page, and
  the first page is referred to by no name. Likewise \<open>new_script\<close> after loading an
  archive with the entry \<open>Script 3.vs\<close> adds a second page titled \<open>Script 3\<close>.
\<close>

theorem loading_adds_a_second_tab_of_the_same_name:
  "save_to_vsm1 MainWindow_init None
     = (MainWindow_init\<lparr>dialogs := [showinfo ''Save'' ''File saved successfully.'']\<rparr>,
        Some [(''Script 1.vs'', Text ''Generated code for Script 1.'')])
   \<and> map page_text (notebook (load_from_vsm1 MainWindow_init
        (Opened [(''Script 1.vs'', Text ''Generated code for Script 1.'')])))
       = [''Script 1'', ''Script 1'']
   \<and> tabs (load_from_vsm1 MainWindow_init
        (Opened [(''Script 1.vs'', Text ''Generated code for Script 1.'')]))
       = [(''Script 1'', 1)]
   \<and> map page_text (notebook (new_script (load_from_vsm1 MainWindow_init
        (Opened [(''Script 3.vs'', Text ''Generated code for Script 3.'')]))))
       = [''Script 1'', ''Script 3'', ''Script 3'']
   \<and> tabs (new_script (load_from_vsm1 MainWindow_init
        (Opened [(''Script 3.vs'', Text ''Generated code for Script 3.'')])))
       = [(''Script 1'', 0), (''Script 3'', 2)]"
  by (simp add: save_to_vsm1_def writestr_def zip_filename_def Let_def load_from_vsm1_def
      MainWindow_init_def add_tab_def create_menu_def namelist_def load_entry_def
      read_decode_def new_script_def)

lemma add_tab_fields:
  "notebook (add_tab w name) = notebook w @ [\<lparr>page_text = name, page_grid = InfiniteGrid_init\<rparr>]"
  "tabs (add_tab w name) = dict_set (tabs w) name (length (notebook w))"
  "menubar (add_tab w name) = menubar w"
  "stdout (add_tab w name) = stdout w"
  "dialogs (add_tab w name) = dialogs w"
  by (simp_all add: add_tab_def)

lemma add_tabs_simps:
  "add_tabs w [] = w"
  "add_tabs w (name # names) = add_tabs (add_tab w name) names"
  by (simp_all add: add_tabs_def)

lemma add_tabs_depends_on:
  assumes "tabs w = tabs v" and "notebook w = notebook v"
  shows "tabs (add_tabs w names) = tabs (add_tabs v names)
    \<and> notebook (add_tabs w names) = notebook (add_tabs v names)"
  using assms
proof (induction names arbitrary: w v)
  case Nil
  then show ?case by (simp add: add_tabs_simps)
next
  case (Cons name names)
  have "tabs (add_tab w name) = tabs (add_tab v name)"
    "notebook (add_tab w name) = notebook (add_tab v name)"
    using Cons.prems by (simp_all add: add_tab_fields)
  from Cons.IH [OF this] show ?case by (simp add: add_tabs_simps)
qed

lemma add_tabs_others:
  "menubar (add_tabs w names) = menubar w \<and> dialogs (add_tabs w names) = dialogs w"
  by (induction names arbitrary: w) (simp_all add: add_tabs_simps add_tab_fields)

lemma notebook_add_tabs:
  "notebook (add_tabs w names) =
     notebook w @ map (\<lambda>name. \<lparr>page_text = name, page_grid = InfiniteGrid_init\<rparr>) names"
  by (induction names arbitrary: w) (simp_all add: add_tabs_simps add_tab_fields)

lemma load_entry_Inr:
  assumes "read_decode a file_name = Inr script_data"
  shows "load_entry w a file_name =
     Inr ((add_tab w (str_replace ''.vs'' [] file_name))
            \<lparr>stdout := stdout w @ [''Loaded '' @ file_name @ '': '' @ script_data]\<rparr>)"
  using assms by (simp add: load_entry_def Let_def add_tab_fields)

lemma load_entry_Inl:
  assumes "read_decode a file_name = Inl e"
  shows "load_entry w a file_name = Inl (e, w)"
  using assms by (simp add: load_entry_def)

lemma load_entries_succeeds:
  assumes "\<forall>file_name\<in>set names. \<exists>script_data. read_decode a file_name = Inr script_data"
  shows "\<exists>w'. load_entries w a names = Inr w'
    \<and> tabs w' = tabs (add_tabs w (map (str_replace ''.vs'' []) names))
    \<and> notebook w' = notebook (add_tabs w (map (str_replace ''.vs'' []) names))
    \<and> menubar w' = menubar w \<and> dialogs w' = dialogs w"
  using assms
proof (induction names arbitrary: w)
  case Nil
  show ?case by (simp add: add_tabs_simps)
next
  case (Cons file_name names)
  from Cons.prems obtain script_data where r: "read_decode a file_name = Inr script_data"
    by auto
  let ?w1 = "add_tab w (str_replace ''.vs'' [] file_name)"
  let ?w2 = "?w1\<lparr>stdout := stdout w @ [''Loaded '' @ file_name @ '': '' @ script_data]\<rparr>"
  have step: "load_entry w a file_name = Inr ?w2"
    by (rule load_entry_Inr [OF r])
  from Cons.prems have rest: "\<forall>n\<in>set names. \<exists>s. read_decode a n = Inr s"
    by simp
  from Cons.IH [OF rest, of ?w2] obtain w' where w':
    "load_entries ?w2 a names = Inr w'"
    "tabs w' = tabs (add_tabs ?w2 (map (str_replace ''.vs'' []) names))"
    "notebook w' = notebook (add_tabs ?w2 (map (str_replace ''.vs'' []) names))"
    "menubar w' = menubar ?w2" "dialogs w' = dialogs ?w2"
    by blast
  have same: "tabs (add_tabs ?w2 (map (str_replace ''.vs'' []) names))
      = tabs (add_tabs ?w1 (map (str_replace ''.vs'' []) names))
    \<and> notebook (add_tabs ?w2 (map (str_replace ''.vs'' []) names))
      = notebook (add_tabs ?w1 (map (str_replace ''.vs'' []) names))"
    by (rule add_tabs_depends_on) simp_all
  have "load_entries w a (file_name # names) = Inr w'"
    using step w'(1) by simp
  moreover have "tabs w' = tabs (add_tabs w (map (str_replace ''.vs'' []) (file_name # names)))"
    using w'(2) same by (simp add: add_tabs_simps)
  moreover have "notebook w' = notebook (add_tabs w (map (str_replace ''.vs'' []) (file_name # names)))"
    using w'(3) same by (simp add: add_tabs_simps)
  moreover have "menubar w' = menubar w" "dialogs w' = dialogs w"
    using w'(4,5) by (simp_all add: add_tab_fields)
  ultimately show ?case by blast
qed

lemma load_entries_append:
  "load_entries w a (names1 @ names2) =
     (case load_entries w a names1 of
        Inl raised \<Rightarrow> Inl raised
      | Inr w' \<Rightarrow> load_entries w' a names2)"
  by (induction names1 arbitrary: w) (simp_all split: sum.split)

lemma load_entries_stops:
  assumes "\<forall>n\<in>set names1. \<exists>script_data. read_decode a n = Inr script_data"
    and "read_decode a file_name = Inl e"
  shows "\<exists>w'. load_entries w a (names1 @ file_name # names2) = Inl (e, w')
    \<and> tabs w' = tabs (add_tabs w (map (str_replace ''.vs'' []) names1))
    \<and> notebook w' = notebook (add_tabs w (map (str_replace ''.vs'' []) names1))
    \<and> menubar w' = menubar w \<and> dialogs w' = dialogs w"
proof -
  from load_entries_succeeds [OF assms(1), of w] obtain w' where w':
    "load_entries w a names1 = Inr w'"
    "tabs w' = tabs (add_tabs w (map (str_replace ''.vs'' []) names1))"
    "notebook w' = notebook (add_tabs w (map (str_replace ''.vs'' []) names1))"
    "menubar w' = menubar w" "dialogs w' = dialogs w"
    by blast
  have "load_entries w a (names1 @ file_name # names2) = Inl (e, w')"
    using w'(1) load_entry_Inl [OF assms(2), of w'] by (simp add: load_entries_append)
  with w'(2-5) show ?thesis by blast
qed

text \<open>
  \<^bold>\<open>C2\<close>. A failed load is not rolled back. When the archive cannot be opened, the tabs
  and the notebook are what they were and an error box is shown. When reading or decoding
  an entry raises, the loop stops there and an error box is shown, but the tabs created
  for the entries before it stay: the workspace is the one obtained by adding a tab for
  each earlier entry, in order.
\<close>

theorem failed_load_keeps_the_tabs_loaded_so_far:
  "tabs (load_from_vsm1 w (OpenRaises e)) = tabs w
   \<and> notebook (load_from_vsm1 w (OpenRaises e)) = notebook w
   \<and> dialogs (load_from_vsm1 w (OpenRaises e))
       = dialogs w @ [showerror ''Error'' (''Error loading file: '' @ str_exn e)]
   \<and> (namelist a = names1 @ file_name # names2
       \<and> (\<forall>n\<in>set names1. \<exists>script_data. read_decode a n = Inr script_data)
       \<and> read_decode a file_name = Inl e
      \<longrightarrow> tabs (load_from_vsm1 w (Opened a))
            = tabs (add_tabs w (map (str_replace ''.vs'' []) names1))
        \<and> notebook (load_from_vsm1 w (Opened a))
            = notebook (add_tabs w (map (str_replace ''.vs'' []) names1))
        \<and> dialogs (load_from_vsm1 w (Opened a))
            = dialogs w @ [showerror ''Error'' (''Error loading file: '' @ str_exn e)])"
proof -
  have at_open: "tabs (load_from_vsm1 w (OpenRaises e)) = tabs w
    \<and> notebook (load_from_vsm1 w (OpenRaises e)) = notebook w
    \<and> dialogs (load_from_vsm1 w (OpenRaises e))
       = dialogs w @ [showerror ''Error'' (''Error loading file: '' @ str_exn e)]"
    by (simp add: load_from_vsm1_def)
  have entry: "tabs (load_from_vsm1 w (Opened a))
            = tabs (add_tabs w (map (str_replace ''.vs'' []) names1))
        \<and> notebook (load_from_vsm1 w (Opened a))
            = notebook (add_tabs w (map (str_replace ''.vs'' []) names1))
        \<and> dialogs (load_from_vsm1 w (Opened a))
            = dialogs w @ [showerror ''Error'' (''Error loading file: '' @ str_exn e)]"
    if n: "namelist a = names1 @ file_name # names2"
      and ok: "\<forall>n\<in>set names1. \<exists>script_data. read_decode a n = Inr script_data"
      and bad: "read_decode a file_name = Inl e"
  proof -
    from load_entries_stops [OF ok bad, of w names2] obtain w' where w':
      "load_entries w a (names1 @ file_name # names2) = Inl (e, w')"
      "tabs w' = tabs (add_tabs w (map (str_replace ''.vs'' []) names1))"
      "notebook w' = notebook (add_tabs w (map (str_replace ''.vs'' []) names1))"
      "dialogs w' = dialogs w"
      by blast
    have "load_from_vsm1 w (Opened a)
        = w'\<lparr>dialogs := dialogs w' @ [showerror ''Error'' (''Error loading file: '' @ str_exn e)]\<rparr>"
      using w'(1) n by (simp add: load_from_vsm1_def)
    with w'(2-4) show ?thesis by simp
  qed
  from at_open entry show ?thesis by blast
qed
theorem failed_load_keeps_the_tabs_loaded_so_far_witness:
  "namelist [(''a.vs'', Text ''x''), (''b.vs'', Raises (UnicodeDecodeError ''invalid start byte''))]
     = [''a.vs''] @ ''b.vs'' # []
   \<and> read_decode [(''a.vs'', Text ''x''), (''b.vs'', Raises (UnicodeDecodeError ''invalid start byte''))]
       ''a.vs'' = Inr ''x''
   \<and> read_decode [(''a.vs'', Text ''x''), (''b.vs'', Raises (UnicodeDecodeError ''invalid start byte''))]
       ''b.vs'' = Inl (UnicodeDecodeError ''invalid start byte'')
   \<and> tabs (load_from_vsm1 MainWindow_init
        (Opened [(''a.vs'', Text ''x''), (''b.vs'', Raises (UnicodeDecodeError ''invalid start byte''))]))
       = tabs (add_tabs MainWindow_init [''a''])
   \<and> tabs (add_tabs MainWindow_init [''a'']) = [(''Script 1'', 0), (''a'', 1)]"
proof -
  let ?e = "UnicodeDecodeError ''invalid start byte''"
  let ?a = "[(''a.vs'', Text ''x''), (''b.vs'', Raises ?e)]"
  have n: "namelist ?a = [''a.vs''] @ ''b.vs'' # []"
    by (simp add: namelist_def)
  have ok: "read_decode ?a ''a.vs'' = Inr ''x''"
    by (simp add: read_decode_def)
  have bad: "read_decode ?a ''b.vs'' = Inl ?e"
    by (simp add: read_decode_def)
  have all: "\<forall>n\<in>set [''a.vs'']. \<exists>script_data. read_decode ?a n = Inr script_data"
    using ok by simp
  have "tabs (load_from_vsm1 MainWindow_init (Opened ?a))
      = tabs (add_tabs MainWindow_init (map (str_replace ''.vs'' []) [''a.vs'']))"
    using failed_load_keeps_the_tabs_loaded_so_far
      [of MainWindow_init ?e ?a "[''a.vs'']" "''b.vs''" "[]"] n all bad
    by blast
  then have t: "tabs (load_from_vsm1 MainWindow_init (Opened ?a))
      = tabs (add_tabs MainWindow_init [''a''])"
    by simp
  have v: "tabs (add_tabs MainWindow_init [''a'']) = [(''Script 1'', 0), (''a'', 1)]"
    by (simp add: add_tabs_def add_tab_def MainWindow_init_def create_menu_def)
  from n ok bad t v show ?thesis by blast
qed

text \<open>
  The second entry of this archive is not UTF-8. Loading it into the freshly started
  program fails with an error box, and the tab \<open>a\<close> of the first entry has been added to
  the workspace all the same.
\<close>

theorem failed_load_leaves_workspace_half_loaded:
  "tabs MainWindow_init = [(''Script 1'', 0)]
   \<and> tabs (load_from_vsm1 MainWindow_init
        (Opened [(''a.vs'', Text ''x''), (''b.vs'', Raises (UnicodeDecodeError ''invalid start byte''))]))
       = [(''Script 1'', 0), (''a'', 1)]
   \<and> map page_text (notebook (load_from_vsm1 MainWindow_init
        (Opened [(''a.vs'', Text ''x''), (''b.vs'', Raises (UnicodeDecodeError ''invalid start byte''))])))
       = [''Script 1'', ''a'']
   \<and> dialogs (load_from_vsm1 MainWindow_init
        (Opened [(''a.vs'', Text ''x''), (''b.vs'', Raises (UnicodeDecodeError ''invalid start byte''))]))
       = [showerror ''Error'' ''Error loading file: invalid start byte'']
   \<and> tabs (load_from_vsm1 MainWindow_init
        (Opened [(''a.vs'', Text ''x''), (''b.vs'', Raises (UnicodeDecodeError ''invalid start byte''))]))
       \<noteq> tabs MainWindow_init"
  by (simp add: load_from_vsm1_def MainWindow_init_def add_tab_def create_menu_def namelist_def
      load_entry_def read_decode_def)

lemma take_3_append_vs:
  assumes "take 3 (c # cs) \<noteq> ''.vs''"
  shows "take 3 (c # cs @ ''.vs'') \<noteq> ''.vs''"
proof (cases cs)
  case Nil
  then show ?thesis by simp
next
  case (Cons c2 cs2)
  note outer = Cons
  show ?thesis
  proof (cases cs2)
    case Nil
    with outer show ?thesis by simp
  next
    case (Cons c3 cs3)
    with outer assms show ?thesis by simp
  qed
qed

lemma str_replace_vs_suffix:
  "\<not> has_vs name \<Longrightarrow> str_replace ''.vs'' [] (name @ ''.vs'') = name"
proof (induction name)
  case Nil
  show ?case by simp
next
  case (Cons c cs)
  from Cons.prems have no: "take 3 (c # cs) \<noteq> ''.vs''" and rest: "\<not> has_vs cs"
    by simp_all
  have "take 3 (c # cs @ ''.vs'') \<noteq> ''.vs''"
    by (rule take_3_append_vs [OF no])
  then have "str_replace ''.vs'' [] ((c # cs) @ ''.vs'') = c # str_replace ''.vs'' [] (cs @ ''.vs'')"
    by (simp only: append_Cons str_replace_vs_Cons if_False)
  with Cons.IH [OF rest] show ?case by simp
qed

lemma vsm1_entries_readable:
  "\<forall>file_name\<in>set (namelist (vsm1_entries ts)).
     \<exists>script_data. read_decode (vsm1_entries ts) file_name = Inr script_data"
proof
  fix file_name
  assume "file_name \<in> set (namelist (vsm1_entries ts))"
  then have "file_name \<in> fst ` set (rev (vsm1_entries ts))"
    by (simp add: namelist_def)
  then obtain d where d: "map_of (rev (vsm1_entries ts)) file_name = Some d"
    by (metis map_of_eq_None_iff not_None_eq)
  then have "(file_name, d) \<in> set (vsm1_entries ts)"
    by (metis map_of_SomeD set_rev)
  then obtain s where "d = Text s"
    by (auto simp: vsm1_entries_def)
  with d show "\<exists>script_data. read_decode (vsm1_entries ts) file_name = Inr script_data"
    by (simp add: read_decode_def)
qed

lemma dict_set_in_the_middle:
  "k \<notin> fst ` set pre \<Longrightarrow> dict_set (pre @ (k, v) # post) k m = pre @ (k, m) # post"
  by (induction pre) auto

lemma tabs_add_tabs_own_names:
  assumes "distinct (map fst (pre @ post))" and "tabs v = pre @ post"
  shows "tabs (add_tabs v (map fst post)) =
     pre @ zip (map fst post) [length (notebook v)..<length (notebook v) + length post]"
  using assms
proof (induction post arbitrary: v pre)
  case Nil
  then show ?case by (simp add: add_tabs_simps)
next
  case (Cons p post)
  obtain k x where p: "p = (k, x)" by (cases p)
  let ?L = "length (notebook v)"
  let ?v = "add_tab v k"
  from Cons.prems(1) p have notin: "k \<notin> fst ` set pre"
    by auto
  have t: "tabs ?v = (pre @ [(k, ?L)]) @ post"
    using Cons.prems(2) p dict_set_in_the_middle [OF notin, of x post ?L]
    by (simp add: add_tab_fields)
  have d: "distinct (map fst ((pre @ [(k, ?L)]) @ post))"
    using Cons.prems(1) p by auto
  have l: "length (notebook ?v) = Suc ?L"
    by (simp add: add_tab_fields)
  have "tabs (add_tabs ?v (map fst post)) =
      (pre @ [(k, ?L)]) @ zip (map fst post) [Suc ?L..<Suc ?L + length post]"
    using Cons.IH [OF d t] l by simp
  moreover have "[?L..<?L + length (p # post)] = ?L # [Suc ?L..<Suc ?L + length post]"
    using upt_conv_Cons [of ?L "?L + Suc (length post)"] by simp
  ultimately show ?case
    using p by (simp add: add_tabs_simps)
qed

lemma dict_set_key_set:
  "set (map fst (dict_set d k v)) = insert k (set (map fst d))"
  unfolding dict_set_keys by auto

lemma keys_add_tabs:
  "set (map fst (tabs (add_tabs w names))) = set (map fst (tabs w)) \<union> set names"
proof (induction names arbitrary: w)
  case Nil
  show ?case by (simp add: add_tabs_simps)
next
  case (Cons name names)
  have "set (map fst (tabs (add_tab w name))) = insert name (set (map fst (tabs w)))"
    unfolding add_tab_fields by (rule dict_set_key_set)
  with Cons.IH [of "add_tab w name"] show ?case
    unfolding add_tabs_simps by auto
qed

text \<open>
  \<^bold>\<open>C1\<close>. Saving and loading gives back the tab names and nothing else. For every
  window whose tab names are distinct, contain no \<open>.vs\<close> and can be written (no NUL
  character, at most 65532 bytes), saving it and loading the file, the file system raising
  nothing, ends with the two success boxes and leaves \<open>self.tabs\<close> with the same names in
  the same order; loaded into a freshly started program instead, the names are those
  saved together with the default \<open>Script 1\<close>. The file carries the names only: any two
  windows with the same tab names, whatever their canvases hold, load to the same window.
\<close>

theorem save_and_load_gives_back_the_names_only:
  assumes "distinct (map fst (tabs w))"
    and "\<forall>name\<in>set (map fst (tabs w)). \<not> has_vs name \<and> fits_zip name"
  shows "(\<exists>w'. save_and_load w = Some w'
      \<and> dialogs w' = dialogs w @ [showinfo ''Save'' ''File saved successfully.'',
                                   showinfo ''Load'' ''File loaded successfully.'']
      \<and> map fst (tabs w') = map fst (tabs w))
    \<and> (\<exists>w'. save_and_load_afresh w = Some w'
      \<and> dialogs w' = [showinfo ''Load'' ''File loaded successfully.'']
      \<and> set (map fst (tabs w')) = insert ''Script 1'' (set (map fst (tabs w))))
    \<and> (\<forall>v. map fst (tabs v) = map fst (tabs w) \<longrightarrow>
          save_and_load_afresh v = save_and_load_afresh w)"
proof -
  let ?names = "map fst (tabs w)"
  let ?a = "vsm1_entries (tabs w)"
  let ?ws = "w\<lparr>dialogs := dialogs w @ [showinfo ''Save'' ''File saved successfully.'']\<rparr>"
  from assms(2) have fit: "\<forall>name\<in>set ?names. fits_zip name"
    and no_vs: "\<forall>name\<in>set ?names. \<not> has_vs name"
    by simp_all
  have saved: "save_to_vsm1 w None = (?ws, Some ?a)"
    by (rule save_to_vsm1_fits [OF fit])
  have stripped: "map (str_replace ''.vs'' []) (namelist ?a) = ?names"
    using no_vs by (simp add: namelist_vsm1_entries str_replace_vs_suffix cong: map_cong)
  { fix v :: MainWindow
    from load_entries_succeeds [OF vsm1_entries_readable, of v "tabs w"]
    obtain w' where w': "load_entries v ?a (namelist ?a) = Inr w'"
      "tabs w' = tabs (add_tabs v ?names)" "dialogs w' = dialogs v"
      unfolding stripped by blast
    let ?w'' = "w'\<lparr>dialogs := dialogs w' @ [showinfo ''Load'' ''File loaded successfully.'']\<rparr>"
    have "load_from_vsm1 v (Opened ?a) = ?w''"
      using w'(1) by (simp add: load_from_vsm1_def)
    then have "tabs (load_from_vsm1 v (Opened ?a)) = tabs (add_tabs v ?names)
      \<and> dialogs (load_from_vsm1 v (Opened ?a))
          = dialogs v @ [showinfo ''Load'' ''File loaded successfully.'']"
      using w'(2,3) by simp
  }
  note loaded = this
  let ?w' = "load_from_vsm1 ?ws (Opened ?a)"
  have sl: "save_and_load w = Some ?w'"
    by (simp add: save_and_load_def saved)
  have t: "tabs ?w' = zip ?names [length (notebook w)..<length (notebook w) + length ?names]"
    using loaded [of ?ws] tabs_add_tabs_own_names [of "[]" "tabs w" ?ws] assms(1)
    by simp
  have k: "map fst (tabs ?w') = ?names"
    unfolding t by simp
  have b: "dialogs ?w' = dialogs w @ [showinfo ''Save'' ''File saved successfully.'',
                                      showinfo ''Load'' ''File loaded successfully.'']"
    using loaded [of ?ws] by simp
  from sl b k have same_window: "\<exists>w'. save_and_load w = Some w'
      \<and> dialogs w' = dialogs w @ [showinfo ''Save'' ''File saved successfully.'',
                                   showinfo ''Load'' ''File loaded successfully.'']
      \<and> map fst (tabs w') = map fst (tabs w)"
    by blast
  let ?f = "load_from_vsm1 MainWindow_init (Opened ?a)"
  have sf: "save_and_load_afresh w = Some ?f"
    by (simp add: save_and_load_afresh_def saved)
  have i: "map fst (tabs MainWindow_init) = [''Script 1'']" "dialogs MainWindow_init = []"
    by (simp_all add: MainWindow_init_def create_menu_def add_tab_def)
  have fk: "set (map fst (tabs ?f)) = insert ''Script 1'' (set ?names)"
    using loaded [of MainWindow_init] keys_add_tabs [of MainWindow_init ?names] i(1)
    by simp
  have fb: "dialogs ?f = [showinfo ''Load'' ''File loaded successfully.'']"
    using loaded [of MainWindow_init] i(2) by simp
  from sf fb fk have afresh: "\<exists>w'. save_and_load_afresh w = Some w'
      \<and> dialogs w' = [showinfo ''Load'' ''File loaded successfully.'']
      \<and> set (map fst (tabs w')) = insert ''Script 1'' (set (map fst (tabs w)))"
    by blast
  have names_only: "save_and_load_afresh v = save_and_load_afresh w"
    if same: "map fst (tabs v) = map fst (tabs w)" for v
  proof -
    from fit same have "\<forall>name\<in>set (map fst (tabs v)). fits_zip name"
      by simp
    from save_to_vsm1_fits [OF this]
    have "save_and_load_afresh v
        = Some (load_from_vsm1 MainWindow_init (Opened (vsm1_entries (tabs v))))"
      by (simp add: save_and_load_afresh_def)
    moreover have "vsm1_entries (tabs v) = ?a"
      using same by (simp only: vsm1_entries_by_name)
    ultimately show ?thesis
      using sf by simp
  qed
  from same_window afresh names_only show ?thesis by blast
qed

theorem save_and_load_gives_back_the_names_only_witness:
  "distinct (map fst (tabs three_tabs_zoomed))
   \<and> map fst (tabs three_tabs_zoomed) = [''Script 1'', ''b'', ''a'']
   \<and> \<not> has_vs ''Script 1'' \<and> \<not> has_vs ''b'' \<and> \<not> has_vs ''a''
   \<and> fits_zip ''Script 1'' \<and> fits_zip ''b'' \<and> fits_zip ''a''
   \<and> (\<exists>w'. save_and_load three_tabs_zoomed = Some w'
        \<and> dialogs w' = [showinfo ''Load'' ''File loaded successfully.'',
                        showinfo ''Save'' ''File saved successfully.'',
                        showinfo ''Load'' ''File loaded successfully.'']
        \<and> map fst (tabs w') = [''Script 1'', ''b'', ''a''])
   \<and> map fst (tabs three_tabs) = map fst (tabs three_tabs_zoomed)
   \<and> project_of three_tabs \<noteq> project_of three_tabs_zoomed
   \<and> save_and_load_afresh three_tabs = save_and_load_afresh three_tabs_zoomed
   \<and> map_option project_of (save_and_load three_tabs_zoomed)
       = Some [(''Script 1'', InfiniteGrid_init), (''b'', InfiniteGrid_init),
               (''a'', InfiniteGrid_init)]
   \<and> map_option project_of (save_and_load three_tabs_zoomed)
       \<noteq> Some (project_of three_tabs_zoomed)"
proof -
  have names: "map fst (tabs three_tabs_zoomed) = [''Script 1'', ''b'', ''a'']"
    "map fst (tabs three_tabs) = map fst (tabs three_tabs_zoomed)"
    by (simp_all add: three_tabs_eq three_tabs_zoomed_eq)
  have d: "distinct (map fst (tabs three_tabs_zoomed))"
    unfolding names(1) by simp
  have vs: "\<not> has_vs ''Script 1''" "\<not> has_vs ''b''" "\<not> has_vs ''a''"
    by simp_all
  have fits: "fits_zip ''Script 1''" "fits_zip ''b''" "fits_zip ''a''"
    by (simp_all add: fits_zip_def)
  have h: "\<forall>name\<in>set (map fst (tabs three_tabs_zoomed)). \<not> has_vs name \<and> fits_zip name"
    unfolding names(1) using vs fits by simp
  note th = save_and_load_gives_back_the_names_only [OF d h]
  from th obtain w' where w': "save_and_load three_tabs_zoomed = Some w'"
    "dialogs w' = dialogs three_tabs_zoomed @ [showinfo ''Save'' ''File saved successfully.'',
                                   showinfo ''Load'' ''File loaded successfully.'']"
    "map fst (tabs w') = map fst (tabs three_tabs_zoomed)"
    by blast
  have ex: "\<exists>w'. save_and_load three_tabs_zoomed = Some w'
        \<and> dialogs w' = [showinfo ''Load'' ''File loaded successfully.'',
                        showinfo ''Save'' ''File saved successfully.'',
                        showinfo ''Load'' ''File loaded successfully.'']
        \<and> map fst (tabs w') = [''Script 1'', ''b'', ''a'']"
    using w' unfolding names(1) by (simp add: three_tabs_zoomed_eq)
  from th names(2) have same: "save_and_load_afresh three_tabs = save_and_load_afresh three_tabs_zoomed"
    by blast
  have differ: "project_of three_tabs \<noteq> project_of three_tabs_zoomed"
    by (simp add: project_of_def three_tabs_eq three_tabs_zoomed_eq InfiniteGrid_init_def)
  have p: "map_option project_of (save_and_load three_tabs_zoomed)
       = Some [(''Script 1'', InfiniteGrid_init), (''b'', InfiniteGrid_init),
               (''a'', InfiniteGrid_init)]"
    by (simp add: save_and_load_def save_to_vsm1_def writestr_def zip_filename_def Let_def
        three_tabs_zoomed_eq load_from_vsm1_def namelist_def load_entry_def read_decode_def
        add_tab_def project_of_def)
  have q: "map_option project_of (save_and_load three_tabs_zoomed)
       \<noteq> Some (project_of three_tabs_zoomed)"
    unfolding p by (simp add: project_of_def three_tabs_zoomed_eq InfiniteGrid_init_def)
  from d names(1) vs fits ex names(2) differ same p q show ?thesis
    by (intro conjI)
qed

text \<open>
  Two projects that do not come back. In the first, the canvas of the one tab is zoomed
  out to 0.8 before saving: after saving and loading, in the same window or in a fresh
  one, the tab \<open>Script 1\<close> has a canvas at scale 1.0. In the second, the window holds the
  tab \<open>a.vs\<close> (loaded from the entry \<open>a.v.vss\<close>): it is saved as \<open>a.vs.vs\<close> and loaded
  as the tab \<open>a\<close>, since \<open>replace\<close> removes every occurrence of \<open>.vs\<close>, so that the tab
  names after loading are not the tab names saved.
\<close>

theorem saved_project_is_not_restored:
  "project_of (grid_event MainWindow_init 0 (MouseWheel (- 120)))
     = [(''Script 1'', InfiniteGrid_init\<lparr>scale_factor := 0.8\<rparr>)]
   \<and> map_option project_of (save_and_load (grid_event MainWindow_init 0 (MouseWheel (- 120))))
     = Some [(''Script 1'', InfiniteGrid_init)]
   \<and> map_option project_of (save_and_load_afresh (grid_event MainWindow_init 0 (MouseWheel (- 120))))
     = Some [(''Script 1'', InfiniteGrid_init)]
   \<and> map_option project_of (save_and_load (grid_event MainWindow_init 0 (MouseWheel (- 120))))
     \<noteq> Some (project_of (grid_event MainWindow_init 0 (MouseWheel (- 120))))
   \<and> map_option project_of (save_and_load_afresh (grid_event MainWindow_init 0 (MouseWheel (- 120))))
     \<noteq> Some (project_of (grid_event MainWindow_init 0 (MouseWheel (- 120))))
   \<and> map fst (tabs (load_from_vsm1 MainWindow_init (Opened [(''a.v.vss'', Text ''x'')])))
     = [''Script 1'', ''a.vs'']
   \<and> map_option (\<lambda>w. map fst (tabs w))
        (save_and_load (load_from_vsm1 MainWindow_init (Opened [(''a.v.vss'', Text ''x'')])))
     = Some [''Script 1'', ''a.vs'', ''a'']
   \<and> map_option (\<lambda>w. map fst (tabs w))
        (save_and_load_afresh (load_from_vsm1 MainWindow_init (Opened [(''a.v.vss'', Text ''x'')])))
     = Some [''Script 1'', ''a'']"
proof -
  let ?w = "grid_event MainWindow_init 0 (MouseWheel (- 120))"
  let ?v = "load_from_vsm1 MainWindow_init (Opened [(''a.v.vss'', Text ''x'')])"
  have w: "?w = \<lparr>notebook = [\<lparr>page_text = ''Script 1'',
                page_grid = InfiniteGrid_init\<lparr>scale_factor := 0.8\<rparr>\<rparr>],
             tabs = [(''Script 1'', 0)], menubar = menubar MainWindow_init,
             stdout = [], dialogs = []\<rparr>"
    by (simp add: grid_event_def MainWindow_init_def create_menu_def add_tab_def
        InfiniteGrid_init_def wheel_event_def Let_def)
  have p: "project_of ?w = [(''Script 1'', InfiniteGrid_init\<lparr>scale_factor := 0.8\<rparr>)]"
    unfolding w by (simp add: project_of_def)
  have s: "map_option project_of (save_and_load ?w) = Some [(''Script 1'', InfiniteGrid_init)]"
    unfolding w
    by (simp add: save_and_load_def save_to_vsm1_def writestr_def zip_filename_def Let_def load_from_vsm1_def
        namelist_def load_entry_def read_decode_def add_tab_def project_of_def)
  have f: "map_option project_of (save_and_load_afresh ?w) = Some [(''Script 1'', InfiniteGrid_init)]"
    unfolding w
    by (simp add: save_and_load_afresh_def save_to_vsm1_def writestr_def zip_filename_def Let_def load_from_vsm1_def
        namelist_def load_entry_def read_decode_def add_tab_def project_of_def
        MainWindow_init_def create_menu_def)
  have ne: "[(''Script 1'', InfiniteGrid_init)]
      \<noteq> [(''Script 1'', InfiniteGrid_init\<lparr>scale_factor := 0.8\<rparr>)]"
    by (simp add: InfiniteGrid_init_def)
  have z4: "map_option project_of (save_and_load ?w) \<noteq> Some (project_of ?w)"
    unfolding p s using ne by simp
  have z5: "map_option project_of (save_and_load_afresh ?w) \<noteq> Some (project_of ?w)"
    unfolding p f using ne by simp
  have n1: "map fst (tabs ?v) = [''Script 1'', ''a.vs'']"
    by (simp add: load_from_vsm1_def MainWindow_init_def add_tab_def create_menu_def namelist_def
        load_entry_def read_decode_def)
  have n2: "map_option (\<lambda>w. map fst (tabs w)) (save_and_load ?v)
      = Some [''Script 1'', ''a.vs'', ''a'']"
    by (simp add: save_and_load_def save_to_vsm1_def writestr_def zip_filename_def Let_def load_from_vsm1_def
        MainWindow_init_def add_tab_def create_menu_def namelist_def load_entry_def
        read_decode_def)
  have n3: "map_option (\<lambda>w. map fst (tabs w)) (save_and_load_afresh ?v)
      = Some [''Script 1'', ''a'']"
    by (simp add: save_and_load_afresh_def save_to_vsm1_def writestr_def zip_filename_def Let_def load_from_vsm1_def
        MainWindow_init_def add_tab_def create_menu_def namelist_def load_entry_def
        read_decode_def)
  from p s f z4 z5 n1 n2 n3 show ?thesis
    by (intro conjI)
qed

section \<open>Main.py: the mouse handlers\<close>

lemma qt_run_events_snoc:
  "qt_run_events g (evs @ [ev]) = qt_dispatch (qt_run_events g evs) ev"
  by (simp add: qt_run_events_def)

lemma no_left_press_no_last_mouse_pos:
  assumes "\<forall>ev\<in>set evs. \<not> is_left_press ev"
  shows "qt_last_mouse_pos (qt_run_events QtInfiniteGrid_init evs) = None"
  using assms
proof (induction evs rule: rev_induct)
  case Nil
  show ?case by (simp add: qt_run_events_def QtInfiniteGrid_init_def)
next
  case (snoc ev evs)
  then have none: "qt_last_mouse_pos (qt_run_events QtInfiniteGrid_init evs) = None"
    and ev: "\<not> is_left_press ev"
    by simp_all
  show ?case
    unfolding qt_run_events_snoc using none ev
    by (cases ev)
       (simp_all add: mousePressEvent_def mouseMoveEvent_def mouseReleaseEvent_def
          wheelEvent_def Let_def)
qed

text \<open>
  \<^bold>\<open>C10\<close>. Main.py's constructor never assigns \<open>last_mouse_pos\<close>, and \<open>mouseMoveEvent\<close>
  reads it only behind the test of the left button. So as long as no press of the left
  button has been delivered to a freshly constructed view, a mouse-move event with the
  left button held raises \<open>AttributeError\<close>, while a mouse-move event without the left
  button held does not read the attribute and leaves the view as it is.
\<close>

theorem move_before_left_press:
  assumes "\<forall>ev\<in>set evs. \<not> is_left_press ev"
  shows "mouseMoveEvent (qt_run_events QtInfiniteGrid_init evs) True pos qt
       = Inl (AttributeError ''last_mouse_pos'')
     \<and> mouseMoveEvent (qt_run_events QtInfiniteGrid_init evs) False pos qt
       = Inr (qt_run_events QtInfiniteGrid_init evs)"
  using no_left_press_no_last_mouse_pos [OF assms]
  by (simp add: mouseMoveEvent_def)

theorem move_before_left_press_witness:
  "\<not> is_left_press (MousePress False (5, 5))
   \<and> \<not> is_left_press (Wheel (- 120))
   \<and> mouseMoveEvent (qt_run_events QtInfiniteGrid_init [MousePress False (5, 5), Wheel (- 120)])
        True (6, 7) plain_view
      = Inl (AttributeError ''last_mouse_pos'')
   \<and> mouseMoveEvent QtInfiniteGrid_init True (6, 7) plain_view
      = Inl (AttributeError ''last_mouse_pos'')"
proof -
  have a: "\<forall>ev\<in>set [MousePress False (5, 5), Wheel (- 120)]. \<not> is_left_press ev"
    by simp
  have b: "\<forall>ev\<in>set ([] :: qt_event list). \<not> is_left_press ev"
    by simp
  have c: "qt_run_events QtInfiniteGrid_init [] = QtInfiniteGrid_init"
    by (simp add: qt_run_events_def)
  from move_before_left_press [OF a, of "(6, 7)" plain_view]
    move_before_left_press [OF b, of "(6, 7)" plain_view] c
  show ?thesis by simp
qed

text \<open>
  A move with the right button held, delivered to the freshly constructed view: no
  exception is raised and the view is unchanged.
\<close>

theorem move_without_left_button_is_a_no_op:
  "mouseMoveEvent QtInfiniteGrid_init False (6, 7) plain_view = Inr QtInfiniteGrid_init
   \<and> mouseMoveEvent QtInfiniteGrid_init False (6, 7) plain_view
      \<noteq> Inl (AttributeError ''last_mouse_pos'')"
  by (simp add: mouseMoveEvent_def)

end
